theory Spec2Isabelle
  imports Complex_Main
begin

section \<open>Scalars, Eigen vectors and matrices\<close>

text \<open>
  The class \<open>EulerAnglesZyx<PrimType_>\<close> of \<open>kindr/rotations/EulerAnglesZyx.hpp\<close> is
  embedded over exact real arithmetic: \<open>Scalar\<close> is \<^typ>\<open>real\<close>, the macro \<open>M_PI\<close> is
  read as \<^term>\<open>pi\<close>, and \<open>+\<close>, \<open>-\<close>, \<open><\<close>, \<open><=\<close> are those of the reals. This is the
  model in which the branches of \<open>getUnique\<close> are traced. Where the rounding of
  \<open>float\<close>/\<open>double\<close> decides a property, the section on IEEE arithmetic below gives
  the same statements with every operation rounded and with \<open>M_PI\<close> the \<open>double\<close>
  that the macro denotes; the NaN that \<open>asin\<close> returns is a value of the type
  \<open>scalar\<close> of the conversion from a rotation matrix.

  \<open>Base\<close> is \<open>Eigen::Matrix<PrimType_, 3, 1>\<close>. Its three coefficients are the fields
  of the record below; the constructor \<open>Base(a, b, c)\<close> stores \<open>a\<close>, \<open>b\<close>, \<open>c\<close> at
  index 0, 1, 2.
\<close>

record Vector3 =
  coeff0 :: real
  coeff1 :: real
  coeff2 :: real

text \<open>
  Eigen's own coefficient accessors of a vector: \<open>v.x()\<close> is \<open>v[0]\<close>, \<open>v.y()\<close> is
  \<open>v[1]\<close>, \<open>v.z()\<close> is \<open>v[2]\<close>. These are the members that the local variable
  \<open>Base zyx\<close> of \<open>getUnique\<close> is accessed with; they are not the members
  \<open>z()\<close>, \<open>y()\<close>, \<open>x()\<close> of \<open>EulerAnglesZyx\<close> (which read index 0, 1, 2 in that order).
\<close>

definition Base_x :: "Vector3 \<Rightarrow> real" where
  "Base_x v = coeff0 v"

definition Base_y :: "Vector3 \<Rightarrow> real" where
  "Base_y v = coeff1 v"

definition Base_z :: "Vector3 \<Rightarrow> real" where
  "Base_z v = coeff2 v"

text \<open>
  \<open>Eigen::Matrix<Scalar, 3, 3>\<close>: \<open>M(i, j)\<close> is \<open>M i j\<close>, row \<open>i\<close> and column \<open>j\<close>
  counted from 0; \<open>transpose3\<close> is its member \<open>transpose()\<close>.
\<close>

type_synonym Matrix3 = "nat \<Rightarrow> nat \<Rightarrow> real"


text \<open>\<open>Eigen::Quaternion<Scalar>\<close>, the implementation of \<open>RotationQuaternion\<close>.\<close>

record Quaternion =
  qw :: real
  qx :: real
  qy :: real
  qz :: real

section \<open>Numeric helpers\<close>

text \<open>
  Modelled from the spec: \<open>kindr::common::floatingPointModulo\<close> is declared in
  \<open>kindr/common/common.hpp\<close>, which is not among the sources. The specification
  describes it as a positive floating-point modulus \<open>mod(a, n)\<close> that yields a
  non-negative remainder in \<open>[0, n)\<close>; on the reals that is the remainder of the
  floored division.
\<close>

definition floatingPointModulo :: "real \<Rightarrow> real \<Rightarrow> real" where
  "floatingPointModulo x y = x - y * of_int \<lfloor>x / y\<rfloor>"






section \<open>The class EulerAnglesZyx\<close>

text \<open>
  The only data member is \<open>Base zyx_\<close>, the vector \<open>[yaw; pitch; roll]\<close>. The datatype
  constructor is the constructor \<open>explicit EulerAnglesZyx(const Base& other)\<close>, its
  selector is \<open>toImplementation()\<close>.
\<close>

datatype EulerAnglesZyx = EulerAnglesZyx (toImplementation: Vector3)

text \<open>The constructor \<open>EulerAnglesZyx(Scalar yaw, Scalar pitch, Scalar roll)\<close>.\<close>

definition EulerAnglesZyx3 :: "real \<Rightarrow> real \<Rightarrow> real \<Rightarrow> EulerAnglesZyx" where
  "EulerAnglesZyx3 yaw pitch roll =
     EulerAnglesZyx \<lparr>coeff0 = yaw, coeff1 = pitch, coeff2 = roll\<rparr>"

text \<open>
  \<open>yaw()\<close> and \<open>z()\<close> return \<open>zyx_(0)\<close>, \<open>pitch()\<close> and \<open>y()\<close> return \<open>zyx_(1)\<close>,
  \<open>roll()\<close> and \<open>x()\<close> return \<open>zyx_(2)\<close>.
\<close>

definition yaw :: "EulerAnglesZyx \<Rightarrow> real" where
  "yaw this = coeff0 (toImplementation this)"

definition pitch :: "EulerAnglesZyx \<Rightarrow> real" where
  "pitch this = coeff1 (toImplementation this)"

definition roll :: "EulerAnglesZyx \<Rightarrow> real" where
  "roll this = coeff2 (toImplementation this)"

subsection \<open>getUnique\<close>

text \<open>\<open>const double tol = 1e-3;\<close>\<close>

definition tol :: real where
  "tol = 1 / 1000"

text \<open>
  The initialisation of the local \<open>Base zyx\<close> (lines 258 to 260): every angle is
  mapped by \<open>floatingPointModulo(a + M_PI, 2 * M_PI) - M_PI\<close>, read through the
  members \<open>z()\<close>, \<open>y()\<close>, \<open>x()\<close> of the receiver and stored at index 0, 1, 2.
\<close>

definition wrap :: "real \<Rightarrow> real" where
  "wrap a = floatingPointModulo (a + pi) (2 * pi) - pi"

definition getUnique_init :: "EulerAnglesZyx \<Rightarrow> Vector3" where
  "getUnique_init this =
     \<lparr>coeff0 = wrap (yaw this), coeff1 = wrap (pitch this), coeff2 = wrap (roll this)\<rparr>"

text \<open>
  The five branches on \<open>zyx.y()\<close> (lines 265 to 311), statement by statement. An
  assignment through \<open>zyx.z()\<close> writes index 2 and one through \<open>zyx.x()\<close> writes
  index 0, as Eigen defines these accessors.
\<close>

definition getUnique_bands :: "Vector3 \<Rightarrow> Vector3" where
  "getUnique_bands zyx =
     (if Base_y zyx < - pi / 2 - tol then
        (let zyx1 = (if Base_z zyx < 0 then zyx\<lparr>coeff2 := Base_z zyx + pi\<rparr>
                     else zyx\<lparr>coeff2 := Base_z zyx - pi\<rparr>);
             zyx2 = zyx1\<lparr>coeff1 := - (Base_y zyx1 + pi)\<rparr>;
             zyx3 = (if Base_x zyx2 < 0 then zyx2\<lparr>coeff0 := Base_x zyx2 + pi\<rparr>
                     else zyx2\<lparr>coeff0 := Base_x zyx2 - pi\<rparr>)
         in zyx3)
      else if - pi / 2 - tol \<le> Base_y zyx \<and> Base_y zyx \<le> - pi / 2 + tol then
        (let zyx1 = zyx\<lparr>coeff2 := Base_z zyx + Base_x zyx\<rparr>;
             zyx2 = zyx1\<lparr>coeff0 := 0\<rparr>
         in zyx2)
      else if - pi / 2 + tol < Base_y zyx \<and> Base_y zyx < pi / 2 - tol then
        zyx
      else if pi / 2 - tol \<le> Base_y zyx \<and> Base_y zyx \<le> pi / 2 + tol then
        (let zyx1 = zyx\<lparr>coeff2 := Base_z zyx - Base_x zyx\<rparr>;
             zyx2 = zyx1\<lparr>coeff0 := 0\<rparr>
         in zyx2)
      else
        (let zyx1 = (if Base_z zyx < 0 then zyx\<lparr>coeff2 := Base_z zyx + pi\<rparr>
                     else zyx\<lparr>coeff2 := Base_z zyx - pi\<rparr>);
             zyx2 = zyx1\<lparr>coeff1 := - (Base_y zyx1 - pi)\<rparr>;
             zyx3 = (if Base_x zyx2 < 0 then zyx2\<lparr>coeff0 := Base_x zyx2 + pi\<rparr>
                     else zyx2\<lparr>coeff0 := Base_x zyx2 - pi\<rparr>)
         in zyx3))"

text \<open>\<open>EulerAnglesZyx getUnique() const\<close>: the value returned, \<open>EulerAnglesZyx(zyx)\<close>.\<close>

definition getUnique :: "EulerAnglesZyx \<Rightarrow> EulerAnglesZyx" where
  "getUnique this = EulerAnglesZyx (getUnique_bands (getUnique_init this))"

section \<open>Member functions as statements\<close>

text \<open>
  To derive what a call leaves in the receiver, the bodies of the member functions are
  also written as statements over a store. The store holds vectors, the data member
  \<open>zyx_\<close> of the receiver (\<open>This\<close>) and the local variable \<open>Base zyx\<close> of \<open>getUnique\<close>
  (\<open>Zyx\<close>), and quaternions, the two temporaries of \<open>inverted\<close>: the
  \<open>RotationQuaternion\<close> constructed from \<open>*this\<close> (\<open>Q\<close>) and the one that its member
  \<open>inverted()\<close> returns (\<open>Qinv\<close>). A statement constructs or assigns a whole vector,
  assigns one coefficient of a vector, constructs a quaternion, or is a sequence, a
  conditional or a \<open>throw\<close>; its execution returns the new store, or the error thrown.
\<close>

datatype error = Exception

datatype var = This | Zyx

datatype qvar = Q | Qinv

record store =
  vec :: "var \<Rightarrow> Vector3"
  quat :: "qvar \<Rightarrow> Quaternion"

datatype stmt =
    Skip
  | Construct var "store \<Rightarrow> Vector3"
  | AssignCoeff var nat "store \<Rightarrow> real"
  | ConstructQ qvar "store \<Rightarrow> Quaternion"
  | Seq stmt stmt
  | IfElse "store \<Rightarrow> bool" stmt stmt
  | Throw error

definition set_coeff :: "nat \<Rightarrow> real \<Rightarrow> Vector3 \<Rightarrow> Vector3" where
  "set_coeff i a v =
     (if i = 0 then v\<lparr>coeff0 := a\<rparr> else if i = 1 then v\<lparr>coeff1 := a\<rparr> else v\<lparr>coeff2 := a\<rparr>)"

fun exec :: "stmt \<Rightarrow> store \<Rightarrow> error + store" where
  "exec Skip s = Inr s"
| "exec (Construct v e) s = Inr (s\<lparr>vec := (vec s)(v := e s)\<rparr>)"
| "exec (AssignCoeff v i e) s = Inr (s\<lparr>vec := (vec s)(v := set_coeff i (e s) (vec s v))\<rparr>)"
| "exec (ConstructQ q e) s = Inr (s\<lparr>quat := (quat s)(q := e s)\<rparr>)"
| "exec (Seq c1 c2) s = (case exec c1 s of Inl err \<Rightarrow> Inl err | Inr s1 \<Rightarrow> exec c2 s1)"
| "exec (IfElse b c1 c2) s = (if b s then exec c1 s else exec c2 s)"
| "exec (Throw err) s = Inl err"

text \<open>The vectors that a statement assigns to, and whether it contains a \<open>throw\<close>.\<close>

fun writes :: "stmt \<Rightarrow> var set" where
  "writes Skip = {}"
| "writes (Construct v e) = {v}"
| "writes (AssignCoeff v i e) = {v}"
| "writes (ConstructQ q e) = {}"
| "writes (Seq c1 c2) = writes c1 \<union> writes c2"
| "writes (IfElse b c1 c2) = writes c1 \<union> writes c2"
| "writes (Throw err) = {}"

fun throws :: "stmt \<Rightarrow> bool" where
  "throws Skip = False"
| "throws (Construct v e) = False"
| "throws (AssignCoeff v i e) = False"
| "throws (ConstructQ q e) = False"
| "throws (Seq c1 c2) = (throws c1 \<or> throws c2)"
| "throws (IfElse b c1 c2) = (throws c1 \<or> throws c2)"
| "throws (Throw err) = True"

text \<open>
  A call runs the body in the store of the receiver and then evaluates the returned
  expression: it yields the receiver after the call and the value returned, or the
  error. The local and the temporaries are not initialised on entry; a body constructs
  them before it reads them.
\<close>

definition enter :: "EulerAnglesZyx \<Rightarrow> store" where
  "enter this =
     \<lparr>vec = (\<lambda>v. toImplementation this),
      quat = (\<lambda>q. \<lparr>qw = 0, qx = 0, qy = 0, qz = 0\<rparr>)\<rparr>"

definition call :: "stmt \<Rightarrow> (store \<Rightarrow> 'r) \<Rightarrow> EulerAnglesZyx \<Rightarrow> error + (EulerAnglesZyx \<times> 'r)" where
  "call body ret this =
     (case exec body (enter this) of
        Inl err \<Rightarrow> Inl err
      | Inr s \<Rightarrow> Inr (EulerAnglesZyx (vec s This), ret s))"

text \<open>
  The body of \<open>getUnique\<close> (lines 258 to 311). \<open>z()\<close>, \<open>y()\<close>, \<open>x()\<close> in the initialiser
  are the members of the receiver; \<open>zyx.x()\<close>, \<open>zyx.y()\<close>, \<open>zyx.z()\<close> are the
  coefficients 0, 1, 2 of the local, so an assignment to \<open>zyx.z()\<close> is
  \<open>AssignCoeff Zyx 2\<close> and one to \<open>zyx.x()\<close> is \<open>AssignCoeff Zyx 0\<close>. The function
  returns \<open>EulerAnglesZyx(zyx)\<close>.
\<close>

definition getUnique_body :: stmt where
  "getUnique_body =
     Seq (Construct Zyx (\<lambda>s.
            \<lparr>coeff0 = floatingPointModulo (yaw (EulerAnglesZyx (vec s This)) + pi) (2 * pi) - pi,
             coeff1 = floatingPointModulo (pitch (EulerAnglesZyx (vec s This)) + pi) (2 * pi) - pi,
             coeff2 = floatingPointModulo (roll (EulerAnglesZyx (vec s This)) + pi) (2 * pi) - pi\<rparr>))
    (IfElse (\<lambda>s. Base_y (vec s Zyx) < - pi / 2 - tol)
       (Seq (IfElse (\<lambda>s. Base_z (vec s Zyx) < 0)
               (AssignCoeff Zyx 2 (\<lambda>s. Base_z (vec s Zyx) + pi))
               (AssignCoeff Zyx 2 (\<lambda>s. Base_z (vec s Zyx) - pi)))
       (Seq (AssignCoeff Zyx 1 (\<lambda>s. - (Base_y (vec s Zyx) + pi)))
            (IfElse (\<lambda>s. Base_x (vec s Zyx) < 0)
               (AssignCoeff Zyx 0 (\<lambda>s. Base_x (vec s Zyx) + pi))
               (AssignCoeff Zyx 0 (\<lambda>s. Base_x (vec s Zyx) - pi)))))
    (IfElse (\<lambda>s. - pi / 2 - tol \<le> Base_y (vec s Zyx) \<and> Base_y (vec s Zyx) \<le> - pi / 2 + tol)
       (Seq (AssignCoeff Zyx 2 (\<lambda>s. Base_z (vec s Zyx) + Base_x (vec s Zyx)))
            (AssignCoeff Zyx 0 (\<lambda>s. 0)))
    (IfElse (\<lambda>s. - pi / 2 + tol < Base_y (vec s Zyx) \<and> Base_y (vec s Zyx) < pi / 2 - tol)
       Skip
    (IfElse (\<lambda>s. pi / 2 - tol \<le> Base_y (vec s Zyx) \<and> Base_y (vec s Zyx) \<le> pi / 2 + tol)
       (Seq (AssignCoeff Zyx 2 (\<lambda>s. Base_z (vec s Zyx) - Base_x (vec s Zyx)))
            (AssignCoeff Zyx 0 (\<lambda>s. 0)))
       (Seq (IfElse (\<lambda>s. Base_z (vec s Zyx) < 0)
               (AssignCoeff Zyx 2 (\<lambda>s. Base_z (vec s Zyx) + pi))
               (AssignCoeff Zyx 2 (\<lambda>s. Base_z (vec s Zyx) - pi)))
       (Seq (AssignCoeff Zyx 1 (\<lambda>s. - (Base_y (vec s Zyx) - pi)))
            (IfElse (\<lambda>s. Base_x (vec s Zyx) < 0)
               (AssignCoeff Zyx 0 (\<lambda>s. Base_x (vec s Zyx) + pi))
               (AssignCoeff Zyx 0 (\<lambda>s. Base_x (vec s Zyx) - pi)))))))))"

definition getUnique_call :: "EulerAnglesZyx \<Rightarrow> error + (EulerAnglesZyx \<times> EulerAnglesZyx)" where
  "getUnique_call = call getUnique_body (\<lambda>s. EulerAnglesZyx (vec s Zyx))"

text \<open>
  \<open>setUnique\<close> (lines 319 to 322) executes \<open>*this = getUnique(); return *this;\<close>:
  the body of \<open>getUnique\<close> runs on the receiver, and the vector it returns is assigned
  to \<open>zyx_\<close>.
\<close>

definition setUnique_body :: stmt where
  "setUnique_body = Seq getUnique_body (Construct This (\<lambda>s. vec s Zyx))"

definition setUnique_call :: "EulerAnglesZyx \<Rightarrow> error + (EulerAnglesZyx \<times> EulerAnglesZyx)" where
  "setUnique_call = call setUnique_body (\<lambda>s. EulerAnglesZyx (vec s This))"

section \<open>Conversions\<close>

text \<open>
  The functions of other components that the conversions call and that are not part of
  \<open>EulerAnglesZyx.hpp\<close> are parameters of the model:
  \<^item> \<open>toRotationMatrix\<close> is \<open>Eigen::QuaternionBase::toRotationMatrix()\<close>;
  \<^item> \<open>eulerAngles\<close> is \<open>Eigen::MatrixBase::eulerAngles(a0, a1, a2)\<close>;
  \<^item> \<open>quaternionFromZyx\<close> is the constructor \<open>RotationQuaternion<PrimType_>(*this)\<close>,
    the conversion of a triple to a unit quaternion in \<open>RotationQuaternion.hpp\<close>.
\<close>

record Collaborators =
  toRotationMatrix :: "Quaternion \<Rightarrow> Matrix3"
  eulerAngles :: "Matrix3 \<Rightarrow> nat \<Rightarrow> nat \<Rightarrow> nat \<Rightarrow> Vector3"
  quaternionFromZyx :: "EulerAnglesZyx \<Rightarrow> Quaternion"

text \<open>
  \<open>ConversionTraits<EulerAnglesZyx, RotationQuaternion>::convert\<close> (line 410). The
  \<open>cast\<close> to the destination scalar is the identity on the reals.
\<close>

definition convert_RotationQuaternion :: "Collaborators \<Rightarrow> Quaternion \<Rightarrow> EulerAnglesZyx" where
  "convert_RotationQuaternion E q = EulerAnglesZyx (eulerAngles E (toRotationMatrix E q) 2 1 0)"







section \<open>Inversion\<close>

text \<open>
  Modelled from the spec: \<open>RotationQuaternion::inverted()\<close> is defined in
  \<open>RotationQuaternion.hpp\<close>, which is not among the sources. The specification says
  that the quaternion is inverted by conjugation, since it has unit length.
\<close>

definition RotationQuaternion_inverted :: "Quaternion \<Rightarrow> Quaternion" where
  "RotationQuaternion_inverted q = \<lparr>qw = qw q, qx = - qx q, qy = - qy q, qz = - qz q\<rparr>"




text \<open>
  \<open>EulerAnglesZyx inverted() const\<close> (line 132):
  \<open>return EulerAnglesZyx(RotationQuaternion<PrimType_>(*this).inverted());\<close>
  The outer constructor is the conversion from a quaternion above.
\<close>

definition inverted :: "Collaborators \<Rightarrow> EulerAnglesZyx \<Rightarrow> EulerAnglesZyx" where
  "inverted E this =
     convert_RotationQuaternion E (RotationQuaternion_inverted (quaternionFromZyx E this))"

text \<open>
  The same body as statements: the temporary \<open>RotationQuaternion<PrimType_>(*this)\<close> is
  constructed, its member \<open>inverted()\<close> gives the second temporary, and the conversion
  of the second temporary is returned. No statement assigns to \<open>zyx_\<close>, and there is no
  \<open>throw\<close>.
\<close>

definition inverted_body :: "Collaborators \<Rightarrow> stmt" where
  "inverted_body E =
     Seq (ConstructQ Q (\<lambda>s. quaternionFromZyx E (EulerAnglesZyx (vec s This))))
         (ConstructQ Qinv (\<lambda>s. RotationQuaternion_inverted (quat s Q)))"

definition inverted_call ::
  "Collaborators \<Rightarrow> EulerAnglesZyx \<Rightarrow> error + (EulerAnglesZyx \<times> EulerAnglesZyx)" where
  "inverted_call E = call (inverted_body E) (\<lambda>s. convert_RotationQuaternion E (quat s Qinv))"

text \<open>
  \<open>invert\<close> (lines 138 to 141) executes \<open>*this = this->inverted(); return *this;\<close>: the
  body of \<open>inverted\<close> runs on the receiver, and the triple it returns is assigned to
  \<open>zyx_\<close>.
\<close>

definition invert_body :: "Collaborators \<Rightarrow> stmt" where
  "invert_body E =
     Seq (inverted_body E)
         (Construct This (\<lambda>s. toImplementation (convert_RotationQuaternion E (quat s Qinv))))"

definition invert_call ::
  "Collaborators \<Rightarrow> EulerAnglesZyx \<Rightarrow> error + (EulerAnglesZyx \<times> EulerAnglesZyx)" where
  "invert_call E = call (invert_body E) (\<lambda>s. EulerAnglesZyx (vec s This))"


section \<open>IEEE arithmetic\<close>

text \<open>
  The scalars of the code are \<open>float\<close> and \<open>double\<close>: binary floating-point numbers with
  a significand of \<open>p = 24\<close> or \<open>p = 53\<close> bits, and every operation returns the exact
  result rounded to the nearest such number, ties to the even significand. \<open>rnd p x\<close>
  is that rounding of the real \<open>x\<close>; overflow and subnormal numbers are not modelled
  (the values below lie between \<open>2\<^sup>-\<^sup>1\<^sup>0\<close> and \<open>2\<^sup>4\<close>).
\<close>

definition round_half_even :: "real \<Rightarrow> int" where
  "round_half_even y =
     (let f = \<lfloor>y\<rfloor>; d = y - of_int f
      in if d < 1 / 2 then f else if 1 / 2 < d then f + 1 else if even f then f else f + 1)"

definition pow2 :: "int \<Rightarrow> real" where
  "pow2 k = (if 0 \<le> k then 2 ^ nat k else 1 / 2 ^ nat (- k))"

definition rnd :: "nat \<Rightarrow> real \<Rightarrow> real" where
  "rnd p x =
     (if x = 0 then 0
      else let e = \<lfloor>log 2 \<bar>x\<bar>\<rfloor>; u = pow2 (e - int p + 1)
           in of_int (round_half_even (x / u)) * u)"

text \<open>
  \<open>M_PI\<close> is the \<open>double\<close> nearest to \<open>\<pi>\<close>, \<open>884279719003555 / 2\<^sup>4\<^sup>8\<close>, and the literal
  \<open>1e-3\<close> of \<open>tol\<close> is the \<open>double\<close> nearest to \<open>1/1000\<close>.
\<close>

definition M_PI :: real where
  "M_PI = 884279719003555 / 281474976710656"

definition tol_double :: real where
  "tol_double = rnd 53 (1 / 1000)"

text \<open>
  Modelled from the spec: \<open>floatingPointModulo\<close> on two \<open>double\<close> arguments (the
  arguments \<open>z() + M_PI\<close> and \<open>2 * M_PI\<close> are of type \<open>double\<close> also when the scalar is
  \<open>float\<close>). It returns the non-negative remainder as a \<open>double\<close>: the remainder of the
  floored division, rounded.
\<close>

definition floatingPointModulo_double :: "real \<Rightarrow> real \<Rightarrow> real" where
  "floatingPointModulo_double x y = rnd 53 (floatingPointModulo x y)"

text \<open>
  The body of \<open>getUnique\<close> for a scalar of \<open>p\<close> bits. An operation with \<open>M_PI\<close> or \<open>tol\<close>
  is done in \<open>double\<close> (\<open>rnd 53\<close>); storing its result in a coefficient of \<open>zyx\<close> rounds
  it to the scalar (\<open>rnd p\<close>); \<open>zyx.z() += zyx.x()\<close> adds two scalars in the scalar's
  own format. Negation, halving \<open>M_PI\<close> and the comparisons are exact.
\<close>

definition wrap_ieee :: "nat \<Rightarrow> real \<Rightarrow> real" where
  "wrap_ieee p a =
     rnd p (rnd 53 (floatingPointModulo_double (rnd 53 (a + M_PI)) (rnd 53 (2 * M_PI)) - M_PI))"

definition getUnique_init_ieee :: "nat \<Rightarrow> EulerAnglesZyx \<Rightarrow> Vector3" where
  "getUnique_init_ieee p this =
     \<lparr>coeff0 = wrap_ieee p (yaw this), coeff1 = wrap_ieee p (pitch this),
      coeff2 = wrap_ieee p (roll this)\<rparr>"

definition getUnique_bands_ieee :: "nat \<Rightarrow> Vector3 \<Rightarrow> Vector3" where
  "getUnique_bands_ieee p zyx =
     (if Base_y zyx < rnd 53 (rnd 53 (- M_PI / 2) - tol_double) then
        (let zyx1 = (if Base_z zyx < 0 then zyx\<lparr>coeff2 := rnd p (rnd 53 (Base_z zyx + M_PI))\<rparr>
                     else zyx\<lparr>coeff2 := rnd p (rnd 53 (Base_z zyx - M_PI))\<rparr>);
             zyx2 = zyx1\<lparr>coeff1 := rnd p (- rnd 53 (Base_y zyx1 + M_PI))\<rparr>;
             zyx3 = (if Base_x zyx2 < 0 then zyx2\<lparr>coeff0 := rnd p (rnd 53 (Base_x zyx2 + M_PI))\<rparr>
                     else zyx2\<lparr>coeff0 := rnd p (rnd 53 (Base_x zyx2 - M_PI))\<rparr>)
         in zyx3)
      else if rnd 53 (rnd 53 (- M_PI / 2) - tol_double) \<le> Base_y zyx
              \<and> Base_y zyx \<le> rnd 53 (rnd 53 (- M_PI / 2) + tol_double) then
        (let zyx1 = zyx\<lparr>coeff2 := rnd p (Base_z zyx + Base_x zyx)\<rparr>;
             zyx2 = zyx1\<lparr>coeff0 := 0\<rparr>
         in zyx2)
      else if rnd 53 (rnd 53 (- M_PI / 2) + tol_double) < Base_y zyx
              \<and> Base_y zyx < rnd 53 (rnd 53 (M_PI / 2) - tol_double) then
        zyx
      else if rnd 53 (rnd 53 (M_PI / 2) - tol_double) \<le> Base_y zyx
              \<and> Base_y zyx \<le> rnd 53 (rnd 53 (M_PI / 2) + tol_double) then
        (let zyx1 = zyx\<lparr>coeff2 := rnd p (Base_z zyx - Base_x zyx)\<rparr>;
             zyx2 = zyx1\<lparr>coeff0 := 0\<rparr>
         in zyx2)
      else
        (let zyx1 = (if Base_z zyx < 0 then zyx\<lparr>coeff2 := rnd p (rnd 53 (Base_z zyx + M_PI))\<rparr>
                     else zyx\<lparr>coeff2 := rnd p (rnd 53 (Base_z zyx - M_PI))\<rparr>);
             zyx2 = zyx1\<lparr>coeff1 := rnd p (- rnd 53 (Base_y zyx1 - M_PI))\<rparr>;
             zyx3 = (if Base_x zyx2 < 0 then zyx2\<lparr>coeff0 := rnd p (rnd 53 (Base_x zyx2 + M_PI))\<rparr>
                     else zyx2\<lparr>coeff0 := rnd p (rnd 53 (Base_x zyx2 - M_PI))\<rparr>)
         in zyx3))"

definition getUnique_ieee :: "nat \<Rightarrow> EulerAnglesZyx \<Rightarrow> EulerAnglesZyx" where
  "getUnique_ieee p this = EulerAnglesZyx (getUnique_bands_ieee p (getUnique_init_ieee p this))"

section \<open>The pre-wrap\<close>

lemma floatingPointModulo_range:
  assumes "0 < n"
  shows "0 \<le> floatingPointModulo a n" and "floatingPointModulo a n < n"
proof -
  have lo: "of_int \<lfloor>a / n\<rfloor> \<le> a / n" by (rule of_int_floor_le)
  have hi: "a / n < of_int \<lfloor>a / n\<rfloor> + 1" by linarith
  from lo assms have "of_int \<lfloor>a / n\<rfloor> * n \<le> a"
    by (simp only: pos_le_divide_eq)
  then show "0 \<le> floatingPointModulo a n"
    by (simp add: floatingPointModulo_def mult.commute)
  from hi assms have "a < (of_int \<lfloor>a / n\<rfloor> + 1) * n"
    by (simp only: pos_divide_less_eq)
  then show "floatingPointModulo a n < n"
    by (simp add: floatingPointModulo_def algebra_simps)
qed

lemma wrap_range: "- pi \<le> wrap a" "wrap a < pi"
  using floatingPointModulo_range [of "2 * pi" "a + pi"] by (simp_all add: wrap_def)

section \<open>Evaluating getUnique\<close>

lemma two_tol_less_pi: "2 * tol < pi"
  using pi_ge_two by (simp add: tol_def)

lemma wrap_eq:
  assumes "- pi \<le> a - 2 * pi * of_int k" and "a - 2 * pi * of_int k < pi"
  shows "wrap a = a - 2 * pi * of_int k"
proof -
  have "of_int k \<le> (a + pi) / (2 * pi)"
    using assms(1) by (simp add: pos_le_divide_eq algebra_simps)
  moreover have "(a + pi) / (2 * pi) < of_int k + 1"
    using assms(2) by (simp add: pos_divide_less_eq algebra_simps)
  ultimately have "\<lfloor>(a + pi) / (2 * pi)\<rfloor> = k"
    by (simp add: floor_eq_iff)
  then show ?thesis
    by (simp add: wrap_def floatingPointModulo_def)
qed

lemma wrap_id: "- pi \<le> a \<Longrightarrow> a < pi \<Longrightarrow> wrap a = a"
  using wrap_eq [of a 0] by simp

lemma getUnique_components:
  "getUnique (EulerAnglesZyx \<lparr>coeff0 = a, coeff1 = b, coeff2 = c\<rparr>) =
     EulerAnglesZyx (getUnique_bands \<lparr>coeff0 = wrap a, coeff1 = wrap b, coeff2 = wrap c\<rparr>)"
  by (simp add: getUnique_def getUnique_init_def yaw_def pitch_def roll_def)

lemma wrap_values:
  "wrap 0 = 0" "wrap (1 / 2) = 1 / 2" "wrap (1 / 4) = 1 / 4" "wrap (- (pi / 2)) = - (pi / 2)"
  "wrap (pi / 2) = pi / 2" "wrap (pi / 2 + 1 / 2000) = pi / 2 + 1 / 2000"
  "wrap (3 * pi / 4) = 3 * pi / 4" "wrap (3 * pi / 2) = - (pi / 2)"
proof -
  show "wrap 0 = 0" by (rule wrap_id) (use pi_ge_two in linarith)+
  show "wrap (1 / 2) = 1 / 2" by (rule wrap_id) (use pi_ge_two in linarith)+
  show "wrap (1 / 4) = 1 / 4" by (rule wrap_id) (use pi_ge_two in linarith)+
  show "wrap (- (pi / 2)) = - (pi / 2)" by (rule wrap_id) (use pi_ge_two in linarith)+
  show "wrap (pi / 2) = pi / 2" by (rule wrap_id) (use pi_ge_two in linarith)+
  show "wrap (pi / 2 + 1 / 2000) = pi / 2 + 1 / 2000"
    by (rule wrap_id) (use pi_ge_two in linarith)+
  show "wrap (3 * pi / 4) = 3 * pi / 4" by (rule wrap_id) (use pi_ge_two in linarith)+
  have "wrap (3 * pi / 2) = 3 * pi / 2 - 2 * pi * of_int 1"
    by (rule wrap_eq) (use pi_ge_two in simp_all)
  then show "wrap (3 * pi / 2) = - (pi / 2)" by simp
qed

subsection \<open>The branches of getUnique\<close>

text \<open>
  In the two singular bands the statements \<open>zyx.z() += zyx.x(); zyx.x() = 0;\<close> (and
  \<open>-=\<close> in the upper band) add the coefficient at index 0, the wrapped yaw, to the
  coefficient at index 2, the wrapped roll, and then clear index 0.
\<close>

lemma bands_lower:
  assumes "- pi / 2 - tol \<le> coeff1 v" "coeff1 v \<le> - pi / 2 + tol"
  shows "getUnique_bands v = \<lparr>coeff0 = 0, coeff1 = coeff1 v, coeff2 = coeff2 v + coeff0 v\<rparr>"
proof -
  have "\<not> Base_y v < - pi / 2 - tol" using assms by (simp add: Base_y_def)
  then show ?thesis
    unfolding getUnique_bands_def using assms
    by (simp add: Base_x_def Base_y_def Base_z_def)
qed

lemma bands_upper:
  assumes "pi / 2 - tol \<le> coeff1 v" "coeff1 v \<le> pi / 2 + tol"
  shows "getUnique_bands v = \<lparr>coeff0 = 0, coeff1 = coeff1 v, coeff2 = coeff2 v - coeff0 v\<rparr>"
proof -
  have "\<not> Base_y v < - pi / 2 - tol" "\<not> Base_y v \<le> - pi / 2 + tol"
    "\<not> Base_y v < pi / 2 - tol"
    using assms two_tol_less_pi by (simp_all add: Base_y_def tol_def)
  then show ?thesis
    unfolding getUnique_bands_def using assms
    by (simp add: Base_x_def Base_y_def Base_z_def)
qed

lemma bands_middle:
  assumes "- pi / 2 + tol < coeff1 v" "coeff1 v < pi / 2 - tol"
  shows "getUnique_bands v = v"
proof -
  have "\<not> Base_y v < - pi / 2 - tol" "\<not> Base_y v \<le> - pi / 2 + tol"
    "- pi / 2 + tol < Base_y v" "Base_y v < pi / 2 - tol"
    using assms by (simp_all add: Base_y_def tol_def)
  then show ?thesis
    unfolding getUnique_bands_def by simp
qed

text \<open>
  Outside the two singular bands the result of the branches is in range, with the
  pitch strictly inside the middle band.
\<close>

lemma bands_regular_range:
  assumes "- pi \<le> coeff0 v" "coeff0 v < pi" "- pi \<le> coeff1 v" "coeff1 v < pi"
    "- pi \<le> coeff2 v" "coeff2 v < pi"
    and "\<not> (- pi / 2 - tol \<le> coeff1 v \<and> coeff1 v \<le> - pi / 2 + tol)"
    and "\<not> (pi / 2 - tol \<le> coeff1 v \<and> coeff1 v \<le> pi / 2 + tol)"
  shows "- pi \<le> coeff0 (getUnique_bands v) \<and> coeff0 (getUnique_bands v) < pi
       \<and> - pi / 2 + tol < coeff1 (getUnique_bands v) \<and> coeff1 (getUnique_bands v) < pi / 2 - tol
       \<and> - pi \<le> coeff2 (getUnique_bands v) \<and> coeff2 (getUnique_bands v) < pi"
proof -
  consider (lo) "coeff1 v < - pi / 2 - tol"
    | (mid) "- pi / 2 + tol < coeff1 v" "coeff1 v < pi / 2 - tol"
    | (hi) "pi / 2 + tol < coeff1 v"
    using assms(7,8) by linarith
  then show ?thesis
  proof cases
    case lo
    then show ?thesis
      using assms(1-6) unfolding getUnique_bands_def Let_def Base_x_def Base_y_def Base_z_def
      by (simp add: tol_def)
  next
    case mid
    then show ?thesis
      using assms(1-6) by (simp add: bands_middle)
  next
    case hi
    then have "\<not> coeff1 v < - pi / 2 - tol" "\<not> coeff1 v \<le> - pi / 2 + tol"
      "\<not> coeff1 v < pi / 2 - tol" "\<not> coeff1 v \<le> pi / 2 + tol"
      using pi_ge_two by (simp_all add: tol_def)
    then show ?thesis
      using assms(1-6) hi unfolding getUnique_bands_def Let_def Base_x_def Base_y_def Base_z_def
      by (simp add: tol_def)
  qed
qed

lemma getUnique_in_range_id:
  assumes "- pi \<le> yaw t" "yaw t < pi" "- pi \<le> pitch t" "pitch t < pi"
    "- pi \<le> roll t" "roll t < pi"
    "- pi / 2 + tol < pitch t" "pitch t < pi / 2 - tol"
  shows "getUnique t = t"
proof -
  have init: "getUnique_init t = toImplementation t"
    using assms by (simp add: getUnique_init_def wrap_id yaw_def pitch_def roll_def)
  have "getUnique_bands (toImplementation t) = toImplementation t"
    using assms(7,8) by (simp add: bands_middle pitch_def)
  with init show ?thesis by (simp add: getUnique_def)
qed

text \<open>
  What does hold of the canonical box and of idempotence: when the wrapped pitch is in
  neither singular band, the result is in \<open>[-\<pi>, \<pi>) \<times> (-\<pi>/2 + tol, \<pi>/2 - tol) \<times> [-\<pi>, \<pi>)\<close>
  and a second application changes nothing.
\<close>

lemma getUnique_regular_range:
  assumes "\<not> (- pi / 2 - tol \<le> wrap (pitch t) \<and> wrap (pitch t) \<le> - pi / 2 + tol)"
    and "\<not> (pi / 2 - tol \<le> wrap (pitch t) \<and> wrap (pitch t) \<le> pi / 2 + tol)"
  shows "- pi \<le> yaw (getUnique t) \<and> yaw (getUnique t) < pi
       \<and> - pi / 2 + tol < pitch (getUnique t) \<and> pitch (getUnique t) < pi / 2 - tol
       \<and> - pi \<le> roll (getUnique t) \<and> roll (getUnique t) < pi"
  using bands_regular_range [of "getUnique_init t"] assms
    wrap_range [of "yaw t"] wrap_range [of "pitch t"] wrap_range [of "roll t"]
  by (simp add: getUnique_def getUnique_init_def yaw_def pitch_def roll_def)

lemma getUnique_regular_idempotent:
  assumes "\<not> (- pi / 2 - tol \<le> wrap (pitch t) \<and> wrap (pitch t) \<le> - pi / 2 + tol)"
    and "\<not> (pi / 2 - tol \<le> wrap (pitch t) \<and> wrap (pitch t) \<le> pi / 2 + tol)"
  shows "getUnique (getUnique t) = getUnique t"
proof -
  note r = getUnique_regular_range [OF assms]
  have "- pi \<le> pitch (getUnique t)" "pitch (getUnique t) < pi"
    using r two_tol_less_pi by (simp_all add: tol_def)
  with r show ?thesis
    by (intro getUnique_in_range_id) simp_all
qed

section \<open>The canonical box and idempotence\<close>

text \<open>
  C1 says that every component of \<open>getUnique(t)\<close> lies in the canonical box, with the
  pitch in \<open>[-\<pi>/2, \<pi>/2)\<close> and the roll in \<open>[-\<pi>, \<pi>)\<close>. The code run on the triple
  \<open>(0, \<pi>/2 + 0.0005, 0)\<close> takes the upper singular branch, which leaves the pitch as it
  is: the triple is returned unchanged and its pitch is not below \<open>\<pi>/2\<close>. Run on
  \<open>(3\<pi>/4, -\<pi>/2, 3\<pi>/4)\<close> the lower singular branch stores the sum \<open>3\<pi>/2\<close> without
  wrapping it, which is not below \<open>\<pi>\<close>.
\<close>

theorem getUnique_leaves_canonical_box:
  "getUnique (EulerAnglesZyx3 0 (pi / 2 + 1 / 2000) 0) = EulerAnglesZyx3 0 (pi / 2 + 1 / 2000) 0
   \<and> \<not> pitch (getUnique (EulerAnglesZyx3 0 (pi / 2 + 1 / 2000) 0)) < pi / 2
   \<and> roll (getUnique (EulerAnglesZyx3 (3 * pi / 4) (- (pi / 2)) (3 * pi / 4))) = 3 * pi / 2
   \<and> \<not> roll (getUnique (EulerAnglesZyx3 (3 * pi / 4) (- (pi / 2)) (3 * pi / 4))) < pi"
proof -
  have "getUnique_bands \<lparr>coeff0 = 0, coeff1 = pi / 2 + 1 / 2000, coeff2 = 0\<rparr>
        = \<lparr>coeff0 = 0, coeff1 = pi / 2 + 1 / 2000, coeff2 = 0\<rparr>"
    by (subst bands_upper) (simp_all add: tol_def)
  then have 1: "getUnique (EulerAnglesZyx3 0 (pi / 2 + 1 / 2000) 0)
                = EulerAnglesZyx3 0 (pi / 2 + 1 / 2000) 0"
    by (simp add: getUnique_components wrap_values EulerAnglesZyx3_def)
  have "getUnique_bands \<lparr>coeff0 = 3 * pi / 4, coeff1 = - (pi / 2), coeff2 = 3 * pi / 4\<rparr>
        = \<lparr>coeff0 = 0, coeff1 = - (pi / 2), coeff2 = 3 * pi / 2\<rparr>"
    by (subst bands_lower) (simp_all add: tol_def)
  then have 2: "getUnique (EulerAnglesZyx3 (3 * pi / 4) (- (pi / 2)) (3 * pi / 4))
                = EulerAnglesZyx3 0 (- (pi / 2)) (3 * pi / 2)"
    by (simp add: getUnique_components wrap_values EulerAnglesZyx3_def)
  show ?thesis
    unfolding 1 2 by (simp add: pitch_def roll_def EulerAnglesZyx3_def)
qed

text \<open>
  C2 says that \<open>getUnique\<close> is idempotent. On \<open>(3\<pi>/4, -\<pi>/2, 3\<pi>/4)\<close> the first
  application returns \<open>(0, -\<pi>/2, 3\<pi>/2)\<close>; the second one wraps the roll \<open>3\<pi>/2\<close> to
  \<open>-\<pi>/2\<close> and returns \<open>(0, -\<pi>/2, -\<pi>/2)\<close>, a different triple.
\<close>

theorem getUnique_twice_differs:
  "getUnique (EulerAnglesZyx3 (3 * pi / 4) (- (pi / 2)) (3 * pi / 4))
     = EulerAnglesZyx3 0 (- (pi / 2)) (3 * pi / 2)
   \<and> getUnique (getUnique (EulerAnglesZyx3 (3 * pi / 4) (- (pi / 2)) (3 * pi / 4)))
     = EulerAnglesZyx3 0 (- (pi / 2)) (- (pi / 2))
   \<and> getUnique (getUnique (EulerAnglesZyx3 (3 * pi / 4) (- (pi / 2)) (3 * pi / 4)))
     \<noteq> getUnique (EulerAnglesZyx3 (3 * pi / 4) (- (pi / 2)) (3 * pi / 4))"
proof -
  have b1: "getUnique_bands \<lparr>coeff0 = 3 * pi / 4, coeff1 = - (pi / 2), coeff2 = 3 * pi / 4\<rparr>
        = \<lparr>coeff0 = 0, coeff1 = - (pi / 2), coeff2 = 3 * pi / 2\<rparr>"
    by (subst bands_lower) (simp_all add: tol_def)
  have b2: "getUnique_bands \<lparr>coeff0 = 0, coeff1 = - (pi / 2), coeff2 = - (pi / 2)\<rparr>
        = \<lparr>coeff0 = 0, coeff1 = - (pi / 2), coeff2 = - (pi / 2)\<rparr>"
    by (subst bands_lower) (simp_all add: tol_def)
  have 1: "getUnique (EulerAnglesZyx3 (3 * pi / 4) (- (pi / 2)) (3 * pi / 4))
           = EulerAnglesZyx3 0 (- (pi / 2)) (3 * pi / 2)"
    using b1 by (simp add: getUnique_components wrap_values EulerAnglesZyx3_def)
  have 2: "getUnique (EulerAnglesZyx3 0 (- (pi / 2)) (3 * pi / 2))
           = EulerAnglesZyx3 0 (- (pi / 2)) (- (pi / 2))"
    using b2 by (simp add: getUnique_components wrap_values EulerAnglesZyx3_def)
  have 3: "EulerAnglesZyx3 0 (- (pi / 2)) (- (pi / 2)) \<noteq> EulerAnglesZyx3 0 (- (pi / 2)) (3 * pi / 2)"
    by (simp add: EulerAnglesZyx3_def)
  from 1 2 3 show ?thesis by simp
qed

section \<open>The singular bands\<close>

text \<open>
  C5 says that in the lower singular band the result has \<open>z' = z + x\<close>, \<open>x' = 0\<close> and
  in the upper one \<open>z' = z - x\<close>, \<open>x' = 0\<close>, where \<open>z\<close> is the yaw and \<open>x\<close> the roll.
  The code run on \<open>(0.5, -\<pi>/2, 0.25)\<close> returns \<open>(0, -\<pi>/2, 0.75)\<close>, and on
  \<open>(0.5, \<pi>/2, 0.25)\<close> it returns \<open>(0, \<pi>/2, -0.25)\<close>: the yaw is cleared and the roll
  receives \<open>x + z\<close>, respectively \<open>x - z\<close>, because \<open>zyx.z()\<close> and \<open>zyx.x()\<close> of the
  local Eigen vector are its coefficients 2 and 0.
\<close>

theorem getUnique_singular_clears_yaw:
  "getUnique (EulerAnglesZyx3 (1 / 2) (- (pi / 2)) (1 / 4)) = EulerAnglesZyx3 0 (- (pi / 2)) (3 / 4)
   \<and> getUnique (EulerAnglesZyx3 (1 / 2) (pi / 2) (1 / 4)) = EulerAnglesZyx3 0 (pi / 2) (- (1 / 4))
   \<and> yaw (getUnique (EulerAnglesZyx3 (1 / 2) (- (pi / 2)) (1 / 4))) \<noteq> 1 / 2 + 1 / 4
   \<and> roll (getUnique (EulerAnglesZyx3 (1 / 2) (- (pi / 2)) (1 / 4))) \<noteq> 0
   \<and> yaw (getUnique (EulerAnglesZyx3 (1 / 2) (pi / 2) (1 / 4))) \<noteq> 1 / 2 - 1 / 4
   \<and> roll (getUnique (EulerAnglesZyx3 (1 / 2) (pi / 2) (1 / 4))) \<noteq> 0"
proof -
  have "getUnique_bands \<lparr>coeff0 = 1 / 2, coeff1 = - (pi / 2), coeff2 = 1 / 4\<rparr>
        = \<lparr>coeff0 = 0, coeff1 = - (pi / 2), coeff2 = 3 / 4\<rparr>"
    by (subst bands_lower) (simp_all add: tol_def)
  then have 1: "getUnique (EulerAnglesZyx3 (1 / 2) (- (pi / 2)) (1 / 4))
                = EulerAnglesZyx3 0 (- (pi / 2)) (3 / 4)"
    by (simp add: getUnique_components wrap_values EulerAnglesZyx3_def)
  have "getUnique_bands \<lparr>coeff0 = 1 / 2, coeff1 = pi / 2, coeff2 = 1 / 4\<rparr>
        = \<lparr>coeff0 = 0, coeff1 = pi / 2, coeff2 = - (1 / 4)\<rparr>"
    by (subst bands_upper) (simp_all add: tol_def)
  then have 2: "getUnique (EulerAnglesZyx3 (1 / 2) (pi / 2) (1 / 4))
                = EulerAnglesZyx3 0 (pi / 2) (- (1 / 4))"
    by (simp add: getUnique_components wrap_values EulerAnglesZyx3_def)
  show ?thesis
    unfolding 1 2 by (simp add: yaw_def roll_def EulerAnglesZyx3_def)
qed

section \<open>The receiver after a call\<close>

text \<open>
  A statement changes only the vectors it assigns to, and a statement without \<open>throw\<close>
  ends with a store.
\<close>

lemma exec_frame:
  "exec c s = Inr s' \<Longrightarrow> v \<notin> writes c \<Longrightarrow> vec s' v = vec s v"
proof (induction c arbitrary: s s')
  case (Seq c1 c2)
  from Seq.prems(1) obtain s1 where 1: "exec c1 s = Inr s1" and 2: "exec c2 s1 = Inr s'"
    by (auto split: sum.splits)
  from Seq.prems(2) have "v \<notin> writes c1" "v \<notin> writes c2" by simp_all
  with Seq.IH 1 2 show ?case by metis
next
  case (IfElse b c1 c2)
  then show ?case by (cases "b s") auto
qed auto

lemma exec_no_throw:
  "\<not> throws c \<Longrightarrow> \<exists>s'. exec c s = Inr s'"
proof (induction c arbitrary: s)
  case (Seq c1 c2)
  then obtain s1 where "exec c1 s = Inr s1" by auto
  moreover from Seq obtain s2 where "exec c2 s1 = Inr s2" by auto
  ultimately show ?case by simp
qed auto

text \<open>
  The statements of \<open>getUnique\<close> compute in the local what the functions
  \<open>getUnique_init\<close> and \<open>getUnique_bands\<close> compute, and assign to the local only.
\<close>

lemma exec_getUnique_body:
  "exec getUnique_body s =
     Inr (s\<lparr>vec := (vec s)(Zyx :=
            getUnique_bands (getUnique_init (EulerAnglesZyx (vec s This))))\<rparr>)"
  by (simp add: getUnique_body_def getUnique_bands_def getUnique_init_def wrap_def Let_def
      set_coeff_def Base_x_def Base_y_def Base_z_def)

lemma getUnique_body_writes: "writes getUnique_body = {Zyx}"
  by (auto simp add: getUnique_body_def)

lemma getUnique_body_no_throw: "\<not> throws getUnique_body"
  by (simp add: getUnique_body_def)

text \<open>The statements of \<open>inverted\<close> assign to no vector and compute \<open>inverted\<close>.\<close>

lemma inverted_body_writes: "writes (inverted_body E) = {}"
  by (simp add: inverted_body_def)

lemma inverted_body_no_throw: "\<not> throws (inverted_body E)"
  by (simp add: inverted_body_def)

lemma exec_inverted_body:
  "exec (inverted_body E) s =
     Inr (s\<lparr>quat := (quat s)
            (Q := quaternionFromZyx E (EulerAnglesZyx (vec s This)),
             Qinv := RotationQuaternion_inverted
                       (quaternionFromZyx E (EulerAnglesZyx (vec s This))))\<rparr>)"
  by (simp add: inverted_body_def)

lemma call_results:
  "getUnique_call r = Inr (r, getUnique r)"
  "setUnique_call r = Inr (getUnique r, getUnique r)"
  "inverted_call E r = Inr (r, inverted E r)"
  "invert_call E r = Inr (inverted E r, inverted E r)"
proof -
  obtain s' where e: "exec getUnique_body (enter r) = Inr s'"
    using exec_no_throw [OF getUnique_body_no_throw] by blast
  have "vec s' This = vec (enter r) This"
    using e by (rule exec_frame) (simp add: getUnique_body_writes)
  then have k: "vec s' This = toImplementation r"
    by (simp add: enter_def)
  have "s' = (enter r)\<lparr>vec := (vec (enter r))(Zyx :=
            getUnique_bands (getUnique_init (EulerAnglesZyx (vec (enter r) This))))\<rparr>"
    using e by (simp add: exec_getUnique_body)
  then have z: "vec s' Zyx = toImplementation (getUnique r)"
    by (simp add: getUnique_def enter_def)
  show "getUnique_call r = Inr (r, getUnique r)"
    by (simp add: getUnique_call_def call_def e k z)
  show "setUnique_call r = Inr (getUnique r, getUnique r)"
    by (simp add: setUnique_call_def setUnique_body_def call_def e z)
  obtain t' where f: "exec (inverted_body E) (enter r) = Inr t'"
    using exec_no_throw [OF inverted_body_no_throw] by blast
  have "vec t' This = vec (enter r) This"
    using f by (rule exec_frame) (simp add: inverted_body_writes)
  then have m: "vec t' This = toImplementation r"
    by (simp add: enter_def)
  have q: "quat t' Qinv = RotationQuaternion_inverted (quaternionFromZyx E r)"
    using f by (auto simp add: exec_inverted_body enter_def)
  show "inverted_call E r = Inr (r, inverted E r)"
    by (simp add: inverted_call_def call_def f m q inverted_def)
  show "invert_call E r = Inr (inverted E r, inverted E r)"
    by (simp add: invert_call_def invert_body_def call_def f q inverted_def)
qed

text \<open>
  C9: \<open>getUnique\<close> and \<open>inverted\<close> do not modify their receiver: their bodies assign to
  no member of the receiver (\<open>getUnique\<close> assigns to its local \<open>zyx\<close>, \<open>inverted\<close>
  constructs temporaries), so after either call the three stored components of \<open>r\<close>
  are what they were and the result is a fresh value; \<open>setUnique\<close> and \<open>invert\<close> are
  the members that store the result in the receiver.
\<close>

theorem const_members_keep_receiver:
  "getUnique_call r = Inr (r, getUnique r)
   \<and> inverted_call E r = Inr (r, inverted E r)
   \<and> This \<notin> writes getUnique_body \<and> This \<notin> writes (inverted_body E)
   \<and> (case getUnique_call r of Inl err \<Rightarrow> False
       | Inr (r', v) \<Rightarrow> yaw r' = yaw r \<and> pitch r' = pitch r \<and> roll r' = roll r)
   \<and> (case inverted_call E r of Inl err \<Rightarrow> False
       | Inr (r', v) \<Rightarrow> yaw r' = yaw r \<and> pitch r' = pitch r \<and> roll r' = roll r)
   \<and> setUnique_call r = Inr (getUnique r, getUnique r)
   \<and> This \<in> writes setUnique_body
   \<and> invert_call E r = Inr (inverted E r, inverted E r)
   \<and> This \<in> writes (invert_body E)"
  by (simp add: call_results getUnique_body_writes inverted_body_writes
      setUnique_body_def invert_body_def)

section \<open>Inversion through the quaternion\<close>




section \<open>The conversion from a rotation matrix\<close>





section \<open>Evaluating the rounding\<close>

lemma pow2_powr: "pow2 k = 2 powr of_int k"
  by (simp add: pow2_def powr_int)

lemma floor_log2_eq:
  assumes "x \<noteq> 0" "pow2 e \<le> \<bar>x\<bar>" "\<bar>x\<bar> < pow2 (e + 1)"
  shows "\<lfloor>log 2 \<bar>x\<bar>\<rfloor> = e"
proof -
  have pos: "0 < \<bar>x\<bar>" using assms(1) by simp
  have "of_int e \<le> log 2 \<bar>x\<bar>"
    using assms(2) pos by (simp add: le_log_iff pow2_powr)
  moreover have "log 2 \<bar>x\<bar> < of_int e + 1"
    using assms(3) pos by (simp add: log_less_iff pow2_powr)
  ultimately show ?thesis by (simp add: floor_eq_iff)
qed

lemma round_half_even_eqI:
  assumes "\<bar>y - of_int n\<bar> < 1 / 2"
  shows "round_half_even y = n"
proof -
  consider "of_int n \<le> y" | "y < of_int n" by linarith
  then show ?thesis
  proof cases
    case 1
    then have f: "\<lfloor>y\<rfloor> = n" using assms by (intro floor_unique) linarith+
    then show ?thesis using assms 1 by (simp add: round_half_even_def Let_def)
  next
    case 2
    then have f: "\<lfloor>y\<rfloor> = n - 1" using assms by (intro floor_unique) (simp, linarith)+
    then show ?thesis using assms 2 by (simp add: round_half_even_def Let_def)
  qed
qed

text \<open>
  The rounding of \<open>x\<close> in the binade \<open>[2\<^sup>e, 2\<^sup>e\<^sup>+\<^sup>1)\<close>: the multiple \<open>n\<close> of the unit
  \<open>2\<^sup>e\<^sup>-\<^sup>p\<^sup>+\<^sup>1\<close> that is less than half a unit away.
\<close>

lemma rnd_eqI:
  assumes "x \<noteq> 0" "pow2 e \<le> \<bar>x\<bar>" "\<bar>x\<bar> < pow2 (e + 1)"
    and "\<bar>x / pow2 (e - int p + 1) - of_int n\<bar> < 1 / 2"
  shows "rnd p x = of_int n * pow2 (e - int p + 1)"
  using floor_log2_eq [OF assms(1-3)] assms(1) round_half_even_eqI [OF assms(4)]
  by (simp add: rnd_def Let_def)

section \<open>Bounds on \<open>\<pi>\<close>\<close>

lemma arctan_partial_sums:
  fixes x :: real
  assumes "0 \<le> x" "x \<le> 1"
  shows "(\<Sum>i<2 * n. (- 1) ^ i * (1 / real (i * 2 + 1) * x ^ (i * 2 + 1))) \<le> arctan x"
    and "arctan x \<le> (\<Sum>i<2 * n + 1. (- 1) ^ i * (1 / real (i * 2 + 1) * x ^ (i * 2 + 1)))"
proof -
  define a where "a = (\<lambda>n. 1 / real (n * 2 + 1) * x ^ (n * 2 + 1))"
  have ax: "\<bar>x\<bar> \<le> 1" using assms by simp
  have z: "a \<longlonglongrightarrow> 0"
    unfolding a_def by (rule zeroseq_arctan_series [OF ax])
  have p: "0 \<le> a n" for n
    using assms by (simp add: a_def)
  have m: "a (Suc n) \<le> a n" for n
  proof -
    have "x ^ (Suc n * 2 + 1) \<le> x ^ (n * 2 + 1)"
      using assms by (intro power_decreasing) simp_all
    moreover have "1 / real (Suc n * 2 + 1) \<le> 1 / real (n * 2 + 1)"
      by (simp add: field_simps)
    ultimately show ?thesis
      unfolding a_def using assms by (intro mult_mono) simp_all
  qed
  have s: "arctan x = (\<Sum>k. (- 1) ^ k * a k)"
    unfolding a_def by (rule arctan_series [OF ax])
  have "(\<Sum>i<2 * n. (- 1) ^ i * a i) \<le> arctan x"
    unfolding s using summable_Leibniz'(2) [of a n] z p m by blast
  then show "(\<Sum>i<2 * n. (- 1) ^ i * (1 / real (i * 2 + 1) * x ^ (i * 2 + 1))) \<le> arctan x"
    by (simp add: a_def)
  have "arctan x \<le> (\<Sum>i<2 * n + 1. (- 1) ^ i * a i)"
    unfolding s using summable_Leibniz'(4) [of a n] z p m by blast
  then show "arctan x \<le> (\<Sum>i<2 * n + 1. (- 1) ^ i * (1 / real (i * 2 + 1) * x ^ (i * 2 + 1)))"
    by (simp add: a_def)
qed

text \<open>
  \<open>\<pi>\<close> is below \<open>13176795 / 2\<^sup>2\<^sup>2 = 3.14159274...\<close>, the \<open>float\<close> nearest to it, by Machin's
  formula and the alternating series of the arc tangent.
\<close>

lemma pi_less_float_pi: "pi < 13176795 / 4194304"
proof -
  have u: "arctan (1 / 5) \<le> 1 / 5 - 1 / 375 + 1 / 15625 - 1 / 546875 + 1 / 17578125"
    using arctan_partial_sums(2) [of "1 / 5" 2] by (simp add: lessThan_Suc eval_nat_numeral)
  have l: "1 / 239 - 1 / 40955757 \<le> arctan (1 / 239)"
    using arctan_partial_sums(1) [of "1 / 239" 1] by (simp add: lessThan_Suc eval_nat_numeral)
  have "pi = 16 * arctan (1 / 5) - 4 * arctan (1 / 239)"
    using machin by simp
  also have "\<dots> \<le> 16 * (1 / 5 - 1 / 375 + 1 / 15625 - 1 / 546875 + 1 / 17578125)
                  - 4 * (1 / 239 - 1 / 40955757)"
    using u l by (intro diff_mono mult_left_mono) simp_all
  also have "\<dots> < 13176795 / 4194304"
    by simp
  finally show ?thesis .
qed

text \<open>
  \<open>M_PI\<close>, the \<open>double\<close> nearest to \<open>\<pi>\<close>, is below \<open>\<pi>\<close>.
\<close>

lemma M_PI_less_pi: "M_PI < pi"
proof -
  have l: "1 / 5 - 1 / 375 + 1 / 15625 - 1 / 546875 + 1 / 17578125 - 1 / 537109375 + 1 / 15869140625 - 1 / 457763671875 + 1 / 12969970703125 - 1 / 362396240234375 + 1 / 10013580322265625 - 1 / 274181365966796875
           \<le> arctan (1 / 5)"
    using arctan_partial_sums(1) [of "1 / 5" 6] by (simp add: lessThan_Suc eval_nat_numeral)
  have u: "arctan (1 / 239) \<le> 1 / 239 - 1 / 40955757 + 1 / 3899056325995"
    using arctan_partial_sums(2) [of "1 / 239" 1] by (simp add: lessThan_Suc eval_nat_numeral)
  have "M_PI < 16 * (1 / 5 - 1 / 375 + 1 / 15625 - 1 / 546875 + 1 / 17578125 - 1 / 537109375 + 1 / 15869140625 - 1 / 457763671875 + 1 / 12969970703125 - 1 / 362396240234375 + 1 / 10013580322265625 - 1 / 274181365966796875)
                  - 4 * (1 / 239 - 1 / 40955757 + 1 / 3899056325995)"
    by (simp add: M_PI_def)
  also have "\<dots> \<le> 16 * arctan (1 / 5) - 4 * arctan (1 / 239)"
    using l u by (intro diff_mono mult_left_mono) simp_all
  also have "\<dots> = pi"
    using machin by simp
  finally show ?thesis .
qed

section \<open>Values of the rounded operations\<close>

lemma two_M_PI: "rnd 53 (2 * M_PI) = 884279719003555 / 140737488355328"
proof -
  have "rnd 53 (2 * M_PI) = of_int 7074237752028440 * pow2 (2 - int 53 + 1)"
    by (rule rnd_eqI) (simp_all add: M_PI_def pow2_def)
  then have r: "rnd 53 (2 * M_PI) = 884279719003555 / 140737488355328"
    by (simp add: pow2_def M_PI_def)
  show ?thesis by (rule r)
qed

lemma neg_half_M_PI: "rnd 53 (- M_PI / 2) = - (884279719003555 / 562949953421312)"
proof -
  have "rnd 53 (- M_PI / 2) = of_int (- 7074237752028440) * pow2 (0 - int 53 + 1)"
    by (rule rnd_eqI) (simp_all add: M_PI_def pow2_def)
  then have r: "rnd 53 (- M_PI / 2) = - (884279719003555 / 562949953421312)"
    by (simp add: pow2_def M_PI_def)
  show ?thesis by (rule r)
qed

lemma half_M_PI: "rnd 53 (M_PI / 2) = 884279719003555 / 562949953421312"
proof -
  have "rnd 53 (M_PI / 2) = of_int 7074237752028440 * pow2 (0 - int 53 + 1)"
    by (rule rnd_eqI) (simp_all add: M_PI_def pow2_def)
  then have r: "rnd 53 (M_PI / 2) = 884279719003555 / 562949953421312"
    by (simp add: pow2_def M_PI_def)
  show ?thesis by (rule r)
qed

lemma rnd_tol: "rnd 53 (1 / 1000) = 1152921504606847 / 1152921504606846976"
proof -
  have "rnd 53 (1 / 1000) = of_int 4611686018427388 * pow2 ((- 10) - int 53 + 1)"
    by (rule rnd_eqI) (simp_all add: M_PI_def pow2_def)
  then have r: "rnd 53 (1 / 1000) = 1152921504606847 / 1152921504606846976"
    by (simp add: pow2_def M_PI_def)
  show ?thesis by (rule r)
qed

lemma tol_double_value: "tol_double = 1152921504606847 / 1152921504606846976"
  by (simp only: tol_double_def rnd_tol)

lemma band_ll: "rnd 53 (rnd 53 (- M_PI / 2) - tol_double) = - (3539370675827905 / 2251799813685248)"
proof -
  have "rnd 53 (- (884279719003555 / 562949953421312) - 1152921504606847 / 1152921504606846976) = of_int (- 7078741351655810) * pow2 (0 - int 53 + 1)"
    by (rule rnd_eqI) (simp_all add: M_PI_def pow2_def)
  then have r: "rnd 53 (- (884279719003555 / 562949953421312) - 1152921504606847 / 1152921504606846976) = - (3539370675827905 / 2251799813685248)"
    by (simp add: pow2_def M_PI_def)
  show ?thesis
    by (simp only: neg_half_M_PI tol_double_value r)
qed

lemma band_lu: "rnd 53 (rnd 53 (- M_PI / 2) + tol_double) = - (3534867076200535 / 2251799813685248)"
proof -
  have "rnd 53 (- (884279719003555 / 562949953421312) + 1152921504606847 / 1152921504606846976) = of_int (- 7069734152401070) * pow2 (0 - int 53 + 1)"
    by (rule rnd_eqI) (simp_all add: M_PI_def pow2_def)
  then have r: "rnd 53 (- (884279719003555 / 562949953421312) + 1152921504606847 / 1152921504606846976) = - (3534867076200535 / 2251799813685248)"
    by (simp add: pow2_def M_PI_def)
  show ?thesis
    by (simp only: neg_half_M_PI tol_double_value r)
qed

lemma band_ul: "rnd 53 (rnd 53 (M_PI / 2) - tol_double) = 3534867076200535 / 2251799813685248"
proof -
  have "rnd 53 (884279719003555 / 562949953421312 - 1152921504606847 / 1152921504606846976) = of_int 7069734152401070 * pow2 (0 - int 53 + 1)"
    by (rule rnd_eqI) (simp_all add: M_PI_def pow2_def)
  then have r: "rnd 53 (884279719003555 / 562949953421312 - 1152921504606847 / 1152921504606846976) = 3534867076200535 / 2251799813685248"
    by (simp add: pow2_def M_PI_def)
  show ?thesis
    by (simp only: half_M_PI tol_double_value r)
qed

lemma band_uu: "rnd 53 (rnd 53 (M_PI / 2) + tol_double) = 3539370675827905 / 2251799813685248"
proof -
  have "rnd 53 (884279719003555 / 562949953421312 + 1152921504606847 / 1152921504606846976) = of_int 7078741351655810 * pow2 (0 - int 53 + 1)"
    by (rule rnd_eqI) (simp_all add: M_PI_def pow2_def)
  then have r: "rnd 53 (884279719003555 / 562949953421312 + 1152921504606847 / 1152921504606846976) = 3539370675827905 / 2251799813685248"
    by (simp add: pow2_def M_PI_def)
  show ?thesis
    by (simp only: half_M_PI tol_double_value r)
qed

lemma band_values:
  "rnd 53 (rnd 53 (- (M_PI / 2)) - tol_double) = - (3539370675827905 / 2251799813685248)"
  "rnd 53 (rnd 53 (- (M_PI / 2)) + tol_double) = - (3534867076200535 / 2251799813685248)"
  "rnd 53 (rnd 53 (M_PI / 2) - tol_double) = 3534867076200535 / 2251799813685248"
  "rnd 53 (rnd 53 (M_PI / 2) + tol_double) = 3539370675827905 / 2251799813685248"
  using band_ll band_lu band_ul band_uu by simp_all

lemma two_M_PI_exact: "rnd 53 (2 * M_PI) = 2 * M_PI"
  unfolding two_M_PI by (simp add: M_PI_def)

lemma float_input: "rnd 24 (- (2470649 / 262144)) = - (2470649 / 262144)"
proof -
  have "rnd 24 (- (2470649 / 262144)) = of_int (- 9882596) * pow2 (3 - int 24 + 1)"
    by (rule rnd_eqI) (simp_all add: M_PI_def pow2_def)
  then have r: "rnd 24 (- (2470649 / 262144)) = - (2470649 / 262144)"
    by (simp add: pow2_def M_PI_def)
  show ?thesis by (rule r)
qed

lemma wrap_float_yaw: "wrap_ieee 24 (- (2470649 / 262144)) = 13176795 / 4194304"
proof -
  have "rnd 53 (- (2470649 / 262144) + M_PI) = of_int (- 7074237778880884) * pow2 (2 - int 53 + 1)"
    by (rule rnd_eqI) (simp_all add: M_PI_def pow2_def)
  then have s1: "rnd 53 (- (2470649 / 262144) + M_PI) = - (1768559444720221 / 281474976710656)"
    by (simp add: pow2_def M_PI_def)
  have "\<lfloor>(- (1768559444720221 / 281474976710656)) / ((884279719003555 / 140737488355328) :: real)\<rfloor> = (- 2)"
    by (rule floor_unique) simp_all
  then have s2: "floatingPointModulo (- (1768559444720221 / 281474976710656)) (884279719003555 / 140737488355328) = 1768559431293999 / 281474976710656"
    by (simp add: floatingPointModulo_def)
  have "rnd 53 (1768559431293999 / 281474976710656) = of_int 7074237725175996 * pow2 (2 - int 53 + 1)"
    by (rule rnd_eqI) (simp_all add: M_PI_def pow2_def)
  then have s3: "rnd 53 (1768559431293999 / 281474976710656) = 1768559431293999 / 281474976710656"
    by (simp add: pow2_def M_PI_def)
  have "rnd 53 (1768559431293999 / 281474976710656 - M_PI) = of_int 7074237698323552 * pow2 (1 - int 53 + 1)"
    by (rule rnd_eqI) (simp_all add: M_PI_def pow2_def)
  then have s4: "rnd 53 (1768559431293999 / 281474976710656 - M_PI) = 221069928072611 / 70368744177664"
    by (simp add: pow2_def M_PI_def)
  have "rnd 24 (221069928072611 / 70368744177664) = of_int 13176795 * pow2 (1 - int 24 + 1)"
    by (rule rnd_eqI) (simp_all add: M_PI_def pow2_def)
  then have s5: "rnd 24 (221069928072611 / 70368744177664) = 13176795 / 4194304"
    by (simp add: pow2_def M_PI_def)
  show ?thesis
    by (simp only: wrap_ieee_def floatingPointModulo_double_def two_M_PI s1 s2 s3 s4 s5)
qed

lemma wrap_float_zero: "wrap_ieee 24 (0) = 0"
proof -
  have "rnd 53 (0 + M_PI) = of_int 7074237752028440 * pow2 (1 - int 53 + 1)"
    by (rule rnd_eqI) (simp_all add: M_PI_def pow2_def)
  then have s1: "rnd 53 (0 + M_PI) = 884279719003555 / 281474976710656"
    by (simp add: pow2_def M_PI_def)
  have "\<lfloor>(884279719003555 / 281474976710656) / ((884279719003555 / 140737488355328) :: real)\<rfloor> = (0)"
    by (rule floor_unique) simp_all
  then have s2: "floatingPointModulo (884279719003555 / 281474976710656) (884279719003555 / 140737488355328) = 884279719003555 / 281474976710656"
    by (simp add: floatingPointModulo_def)
  have "rnd 53 (884279719003555 / 281474976710656) = of_int 7074237752028440 * pow2 (1 - int 53 + 1)"
    by (rule rnd_eqI) (simp_all add: M_PI_def pow2_def)
  then have s3: "rnd 53 (884279719003555 / 281474976710656) = 884279719003555 / 281474976710656"
    by (simp add: pow2_def M_PI_def)
  have s4: "rnd 53 (884279719003555 / 281474976710656 - M_PI) = 0"
    by (simp add: rnd_def M_PI_def)
  have s5: "rnd 24 (0) = 0"
    by (simp add: rnd_def M_PI_def)
  show ?thesis
    by (simp only: wrap_ieee_def floatingPointModulo_double_def two_M_PI s1 s2 s3 s4 s5)
qed

lemma double_tenth: "rnd 53 (3602879701896397 / 36028797018963968) = 3602879701896397 / 36028797018963968"
proof -
  have "rnd 53 (3602879701896397 / 36028797018963968) = of_int 7205759403792794 * pow2 ((- 4) - int 53 + 1)"
    by (rule rnd_eqI) (simp_all add: M_PI_def pow2_def)
  then have r: "rnd 53 (3602879701896397 / 36028797018963968) = 3602879701896397 / 36028797018963968"
    by (simp add: pow2_def M_PI_def)
  show ?thesis by (rule r)
qed

lemma wrap_double_tenth: "wrap_ieee 53 (3602879701896397 / 36028797018963968) = 225179981368525 / 2251799813685248"
proof -
  have "rnd 53 (3602879701896397 / 36028797018963968 + M_PI) = of_int 7299417733396965 * pow2 (1 - int 53 + 1)"
    by (rule rnd_eqI) (simp_all add: M_PI_def pow2_def)
  then have s1: "rnd 53 (3602879701896397 / 36028797018963968 + M_PI) = 7299417733396965 / 2251799813685248"
    by (simp add: pow2_def M_PI_def)
  have "\<lfloor>(7299417733396965 / 2251799813685248) / ((884279719003555 / 140737488355328) :: real)\<rfloor> = (0)"
    by (rule floor_unique) simp_all
  then have s2: "floatingPointModulo (7299417733396965 / 2251799813685248) (884279719003555 / 140737488355328) = 7299417733396965 / 2251799813685248"
    by (simp add: floatingPointModulo_def)
  have "rnd 53 (7299417733396965 / 2251799813685248) = of_int 7299417733396965 * pow2 (1 - int 53 + 1)"
    by (rule rnd_eqI) (simp_all add: M_PI_def pow2_def)
  then have s3: "rnd 53 (7299417733396965 / 2251799813685248) = 7299417733396965 / 2251799813685248"
    by (simp add: pow2_def M_PI_def)
  have "rnd 53 (7299417733396965 / 2251799813685248 - M_PI) = of_int 7205759403792800 * pow2 ((- 4) - int 53 + 1)"
    by (rule rnd_eqI) (simp_all add: M_PI_def pow2_def)
  then have s4: "rnd 53 (7299417733396965 / 2251799813685248 - M_PI) = 225179981368525 / 2251799813685248"
    by (simp add: pow2_def M_PI_def)
  have "rnd 53 (225179981368525 / 2251799813685248) = of_int 7205759403792800 * pow2 ((- 4) - int 53 + 1)"
    by (rule rnd_eqI) (simp_all add: M_PI_def pow2_def)
  then have s5: "rnd 53 (225179981368525 / 2251799813685248) = 225179981368525 / 2251799813685248"
    by (simp add: pow2_def M_PI_def)
  show ?thesis
    by (simp only: wrap_ieee_def floatingPointModulo_double_def two_M_PI s1 s2 s3 s4 s5)
qed

lemma double_fifth: "rnd 53 (3602879701896397 / 18014398509481984) = 3602879701896397 / 18014398509481984"
proof -
  have "rnd 53 (3602879701896397 / 18014398509481984) = of_int 7205759403792794 * pow2 ((- 3) - int 53 + 1)"
    by (rule rnd_eqI) (simp_all add: M_PI_def pow2_def)
  then have r: "rnd 53 (3602879701896397 / 18014398509481984) = 3602879701896397 / 18014398509481984"
    by (simp add: pow2_def M_PI_def)
  show ?thesis by (rule r)
qed

lemma wrap_double_fifth: "wrap_ieee 53 (3602879701896397 / 18014398509481984) = 225179981368525 / 1125899906842624"
proof -
  have "rnd 53 (3602879701896397 / 18014398509481984 + M_PI) = of_int 7524597714765490 * pow2 (1 - int 53 + 1)"
    by (rule rnd_eqI) (simp_all add: M_PI_def pow2_def)
  then have s1: "rnd 53 (3602879701896397 / 18014398509481984 + M_PI) = 3762298857382745 / 1125899906842624"
    by (simp add: pow2_def M_PI_def)
  have "\<lfloor>(3762298857382745 / 1125899906842624) / ((884279719003555 / 140737488355328) :: real)\<rfloor> = (0)"
    by (rule floor_unique) simp_all
  then have s2: "floatingPointModulo (3762298857382745 / 1125899906842624) (884279719003555 / 140737488355328) = 3762298857382745 / 1125899906842624"
    by (simp add: floatingPointModulo_def)
  have "rnd 53 (3762298857382745 / 1125899906842624) = of_int 7524597714765490 * pow2 (1 - int 53 + 1)"
    by (rule rnd_eqI) (simp_all add: M_PI_def pow2_def)
  then have s3: "rnd 53 (3762298857382745 / 1125899906842624) = 3762298857382745 / 1125899906842624"
    by (simp add: pow2_def M_PI_def)
  have "rnd 53 (3762298857382745 / 1125899906842624 - M_PI) = of_int 7205759403792800 * pow2 ((- 3) - int 53 + 1)"
    by (rule rnd_eqI) (simp_all add: M_PI_def pow2_def)
  then have s4: "rnd 53 (3762298857382745 / 1125899906842624 - M_PI) = 225179981368525 / 1125899906842624"
    by (simp add: pow2_def M_PI_def)
  have "rnd 53 (225179981368525 / 1125899906842624) = of_int 7205759403792800 * pow2 ((- 3) - int 53 + 1)"
    by (rule rnd_eqI) (simp_all add: M_PI_def pow2_def)
  then have s5: "rnd 53 (225179981368525 / 1125899906842624) = 225179981368525 / 1125899906842624"
    by (simp add: pow2_def M_PI_def)
  show ?thesis
    by (simp only: wrap_ieee_def floatingPointModulo_double_def two_M_PI s1 s2 s3 s4 s5)
qed

lemma double_three_tenths: "rnd 53 (5404319552844595 / 18014398509481984) = 5404319552844595 / 18014398509481984"
proof -
  have "rnd 53 (5404319552844595 / 18014398509481984) = of_int 5404319552844595 * pow2 ((- 2) - int 53 + 1)"
    by (rule rnd_eqI) (simp_all add: M_PI_def pow2_def)
  then have r: "rnd 53 (5404319552844595 / 18014398509481984) = 5404319552844595 / 18014398509481984"
    by (simp add: pow2_def M_PI_def)
  show ?thesis by (rule r)
qed

lemma wrap_double_three_tenths: "wrap_ieee 53 (5404319552844595 / 18014398509481984) = 337769972052787 / 1125899906842624"
proof -
  have "rnd 53 (5404319552844595 / 18014398509481984 + M_PI) = of_int 7749777696134014 * pow2 (1 - int 53 + 1)"
    by (rule rnd_eqI) (simp_all add: M_PI_def pow2_def)
  then have s1: "rnd 53 (5404319552844595 / 18014398509481984 + M_PI) = 3874888848067007 / 1125899906842624"
    by (simp add: pow2_def M_PI_def)
  have "\<lfloor>(3874888848067007 / 1125899906842624) / ((884279719003555 / 140737488355328) :: real)\<rfloor> = (0)"
    by (rule floor_unique) simp_all
  then have s2: "floatingPointModulo (3874888848067007 / 1125899906842624) (884279719003555 / 140737488355328) = 3874888848067007 / 1125899906842624"
    by (simp add: floatingPointModulo_def)
  have "rnd 53 (3874888848067007 / 1125899906842624) = of_int 7749777696134014 * pow2 (1 - int 53 + 1)"
    by (rule rnd_eqI) (simp_all add: M_PI_def pow2_def)
  then have s3: "rnd 53 (3874888848067007 / 1125899906842624) = 3874888848067007 / 1125899906842624"
    by (simp add: pow2_def M_PI_def)
  have "rnd 53 (3874888848067007 / 1125899906842624 - M_PI) = of_int 5404319552844592 * pow2 ((- 2) - int 53 + 1)"
    by (rule rnd_eqI) (simp_all add: M_PI_def pow2_def)
  then have s4: "rnd 53 (3874888848067007 / 1125899906842624 - M_PI) = 337769972052787 / 1125899906842624"
    by (simp add: pow2_def M_PI_def)
  have "rnd 53 (337769972052787 / 1125899906842624) = of_int 5404319552844592 * pow2 ((- 2) - int 53 + 1)"
    by (rule rnd_eqI) (simp_all add: M_PI_def pow2_def)
  then have s5: "rnd 53 (337769972052787 / 1125899906842624) = 337769972052787 / 1125899906842624"
    by (simp add: pow2_def M_PI_def)
  show ?thesis
    by (simp only: wrap_ieee_def floatingPointModulo_double_def two_M_PI s1 s2 s3 s4 s5)
qed

lemma wrap_double_M_PI: "wrap_ieee 53 (884279719003555 / 281474976710656) = - (884279719003555 / 281474976710656)"
proof -
  have "rnd 53 (884279719003555 / 281474976710656 + M_PI) = of_int 7074237752028440 * pow2 (2 - int 53 + 1)"
    by (rule rnd_eqI) (simp_all add: M_PI_def pow2_def)
  then have s1: "rnd 53 (884279719003555 / 281474976710656 + M_PI) = 884279719003555 / 140737488355328"
    by (simp add: pow2_def M_PI_def)
  have "\<lfloor>(884279719003555 / 140737488355328) / ((884279719003555 / 140737488355328) :: real)\<rfloor> = (1)"
    by (rule floor_unique) simp_all
  then have s2: "floatingPointModulo (884279719003555 / 140737488355328) (884279719003555 / 140737488355328) = 0"
    by (simp add: floatingPointModulo_def)
  have s3: "rnd 53 (0) = 0"
    by (simp add: rnd_def M_PI_def)
  have "rnd 53 (0 - M_PI) = of_int (- 7074237752028440) * pow2 (1 - int 53 + 1)"
    by (rule rnd_eqI) (simp_all add: M_PI_def pow2_def)
  then have s4: "rnd 53 (0 - M_PI) = - (884279719003555 / 281474976710656)"
    by (simp add: pow2_def M_PI_def)
  have "rnd 53 (- (884279719003555 / 281474976710656)) = of_int (- 7074237752028440) * pow2 (1 - int 53 + 1)"
    by (rule rnd_eqI) (simp_all add: M_PI_def pow2_def)
  then have s5: "rnd 53 (- (884279719003555 / 281474976710656)) = - (884279719003555 / 281474976710656)"
    by (simp add: pow2_def M_PI_def)
  show ?thesis
    by (simp only: wrap_ieee_def floatingPointModulo_double_def two_M_PI s1 s2 s3 s4 s5)
qed

lemma wrap_double_zero: "wrap_ieee 53 (0) = 0"
proof -
  have "rnd 53 (0 + M_PI) = of_int 7074237752028440 * pow2 (1 - int 53 + 1)"
    by (rule rnd_eqI) (simp_all add: M_PI_def pow2_def)
  then have s1: "rnd 53 (0 + M_PI) = 884279719003555 / 281474976710656"
    by (simp add: pow2_def M_PI_def)
  have "\<lfloor>(884279719003555 / 281474976710656) / ((884279719003555 / 140737488355328) :: real)\<rfloor> = (0)"
    by (rule floor_unique) simp_all
  then have s2: "floatingPointModulo (884279719003555 / 281474976710656) (884279719003555 / 140737488355328) = 884279719003555 / 281474976710656"
    by (simp add: floatingPointModulo_def)
  have "rnd 53 (884279719003555 / 281474976710656) = of_int 7074237752028440 * pow2 (1 - int 53 + 1)"
    by (rule rnd_eqI) (simp_all add: M_PI_def pow2_def)
  then have s3: "rnd 53 (884279719003555 / 281474976710656) = 884279719003555 / 281474976710656"
    by (simp add: pow2_def M_PI_def)
  have s4: "rnd 53 (884279719003555 / 281474976710656 - M_PI) = 0"
    by (simp add: rnd_def M_PI_def)
  have s5: "rnd 53 (0) = 0"
    by (simp add: rnd_def M_PI_def)
  show ?thesis
    by (simp only: wrap_ieee_def floatingPointModulo_double_def two_M_PI s1 s2 s3 s4 s5)
qed

lemma double_half: "rnd 53 (1 / 2) = 1 / 2"
proof -
  have "rnd 53 (1 / 2) = of_int 4503599627370496 * pow2 ((- 1) - int 53 + 1)"
    by (rule rnd_eqI) (simp_all add: M_PI_def pow2_def)
  then have r: "rnd 53 (1 / 2) = 1 / 2"
    by (simp add: pow2_def M_PI_def)
  show ?thesis by (rule r)
qed

lemma sum_half: "rnd 53 (1 / 2 + M_PI) = 1 / 2 + M_PI"
proof -
  have "rnd 53 (1 / 2 + M_PI) = of_int 8200137658871064 * pow2 (1 - int 53 + 1)"
    by (rule rnd_eqI) (simp_all add: M_PI_def pow2_def)
  then have r: "rnd 53 (1 / 2 + M_PI) = 1025017207358883 / 281474976710656"
    by (simp add: pow2_def M_PI_def)
  show ?thesis
    unfolding r by (simp add: M_PI_def)
qed

lemma double_quarter: "rnd 53 (1 / 4) = 1 / 4"
proof -
  have "rnd 53 (1 / 4) = of_int 4503599627370496 * pow2 ((- 2) - int 53 + 1)"
    by (rule rnd_eqI) (simp_all add: M_PI_def pow2_def)
  then have r: "rnd 53 (1 / 4) = 1 / 4"
    by (simp add: pow2_def M_PI_def)
  show ?thesis by (rule r)
qed

lemma sum_quarter: "rnd 53 (1 / 4 + M_PI) = 1 / 4 + M_PI"
proof -
  have "rnd 53 (1 / 4 + M_PI) = of_int 7637187705449752 * pow2 (1 - int 53 + 1)"
    by (rule rnd_eqI) (simp_all add: M_PI_def pow2_def)
  then have r: "rnd 53 (1 / 4 + M_PI) = 954648463181219 / 281474976710656"
    by (simp add: pow2_def M_PI_def)
  show ?thesis
    unfolding r by (simp add: M_PI_def)
qed

lemma double_minus_half: "rnd 53 (- (1 / 2)) = - (1 / 2)"
proof -
  have "rnd 53 (- (1 / 2)) = of_int (- 4503599627370496) * pow2 ((- 1) - int 53 + 1)"
    by (rule rnd_eqI) (simp_all add: M_PI_def pow2_def)
  then have r: "rnd 53 (- (1 / 2)) = - (1 / 2)"
    by (simp add: pow2_def M_PI_def)
  show ?thesis by (rule r)
qed

lemma sum_minus_half: "rnd 53 (- (1 / 2) + M_PI) = - (1 / 2) + M_PI"
proof -
  have "rnd 53 (- (1 / 2) + M_PI) = of_int 5948337845185816 * pow2 (1 - int 53 + 1)"
    by (rule rnd_eqI) (simp_all add: M_PI_def pow2_def)
  then have r: "rnd 53 (- (1 / 2) + M_PI) = 743542230648227 / 281474976710656"
    by (simp add: pow2_def M_PI_def)
  show ?thesis
    unfolding r by (simp add: M_PI_def)
qed

section \<open>getUnique in IEEE arithmetic\<close>

lemma M_PI_positive: "0 < M_PI"
  by (simp add: M_PI_def)

lemma bands_ieee_middle:
  assumes "rnd 53 (rnd 53 (- M_PI / 2) + tol_double) < coeff1 v"
    and "coeff1 v < rnd 53 (rnd 53 (M_PI / 2) - tol_double)"
  shows "getUnique_bands_ieee p v = v"
proof -
  have "\<not> Base_y v < rnd 53 (rnd 53 (- M_PI / 2) - tol_double)"
    "\<not> Base_y v \<le> rnd 53 (rnd 53 (- M_PI / 2) + tol_double)"
    using assms(1) by (simp_all add: Base_y_def band_values)
  moreover have "rnd 53 (rnd 53 (- M_PI / 2) + tol_double) < Base_y v"
    "Base_y v < rnd 53 (rnd 53 (M_PI / 2) - tol_double)"
    using assms by (simp_all add: Base_y_def)
  ultimately show ?thesis
    unfolding getUnique_bands_ieee_def by simp
qed

lemma wrap_ieee_unrounded:
  assumes "rnd 53 (a + M_PI) = a + M_PI" and "rnd 53 a = a"
    and "0 \<le> a + M_PI" and "a + M_PI < 2 * M_PI"
  shows "wrap_ieee 53 a = a"
proof -
  note t = two_M_PI_exact
  have "\<lfloor>(a + M_PI) / (2 * M_PI)\<rfloor> = 0"
    using assms(3,4) M_PI_positive by (intro floor_unique) simp_all
  then have "floatingPointModulo (a + M_PI) (2 * M_PI) = a + M_PI"
    by (simp add: floatingPointModulo_def)
  then show ?thesis
    by (simp add: wrap_ieee_def floatingPointModulo_double_def t assms(1,2))
qed

text \<open>
  C6 says that the first step of \<open>getUnique\<close> maps each component \<open>a\<close> to
  \<open>mod(a + \<pi>, 2\<pi>) - \<pi>\<close> and that the value obtained lies in \<open>[-\<pi>, \<pi>)\<close> for every
  finite input. In \<open>EulerAnglesZyx<float>\<close> the yaw \<open>-2470649 / 2\<^sup>1\<^sup>8 = -9.424778\<close>, the
  \<open>float\<close> nearest to \<open>-3\<pi>\<close>, is mapped in \<open>double\<close> to \<open>3.14159262974...\<close>; stored in
  the \<open>float\<close> vector \<open>zyx\<close> this becomes \<open>13176795 / 2\<^sup>2\<^sup>2 = 3.14159274...\<close>, which is
  above \<open>\<pi>\<close>. With pitch and roll \<open>0\<close> the middle branch returns this vector, so the
  yaw of the result of \<open>getUnique\<close> is above \<open>\<pi>\<close> as well.
\<close>

theorem getUnique_float_prewrap_above_pi:
  "rnd 24 (- (2470649 / 262144)) = - (2470649 / 262144)
   \<and> coeff0 (getUnique_init_ieee 24 (EulerAnglesZyx3 (- (2470649 / 262144)) 0 0))
       = 13176795 / 4194304
   \<and> pi < coeff0 (getUnique_init_ieee 24 (EulerAnglesZyx3 (- (2470649 / 262144)) 0 0))
   \<and> \<not> coeff0 (getUnique_init_ieee 24 (EulerAnglesZyx3 (- (2470649 / 262144)) 0 0)) < pi
   \<and> getUnique_ieee 24 (EulerAnglesZyx3 (- (2470649 / 262144)) 0 0)
       = EulerAnglesZyx3 (13176795 / 4194304) 0 0
   \<and> pi < yaw (getUnique_ieee 24 (EulerAnglesZyx3 (- (2470649 / 262144)) 0 0))"
proof -
  have i: "getUnique_init_ieee 24 (EulerAnglesZyx3 (- (2470649 / 262144)) 0 0)
           = \<lparr>coeff0 = 13176795 / 4194304, coeff1 = 0, coeff2 = 0\<rparr>"
    by (simp add: getUnique_init_ieee_def EulerAnglesZyx3_def yaw_def pitch_def roll_def
        wrap_float_yaw wrap_float_zero)
  have b: "getUnique_bands_ieee 24 \<lparr>coeff0 = 13176795 / 4194304, coeff1 = 0, coeff2 = 0\<rparr>
           = \<lparr>coeff0 = 13176795 / 4194304, coeff1 = 0, coeff2 = 0\<rparr>"
    by (rule bands_ieee_middle) (simp_all add: band_values)
  have g: "getUnique_ieee 24 (EulerAnglesZyx3 (- (2470649 / 262144)) 0 0)
           = EulerAnglesZyx3 (13176795 / 4194304) 0 0"
    unfolding getUnique_ieee_def i b by (simp add: EulerAnglesZyx3_def)
  show ?thesis
    unfolding g i using pi_less_float_pi float_input
    by (simp add: yaw_def EulerAnglesZyx3_def)
qed

text \<open>
  C10 says that \<open>getUnique\<close> returns \<open>t\<close> itself for every triple \<open>t\<close> whose components
  lie in \<open>[-\<pi>, \<pi>)\<close> and whose pitch lies strictly inside \<open>(-\<pi>/2 + \<tau>, \<pi>/2 - \<tau>)\<close>. The
  triple of the doubles \<open>0.1\<close>, \<open>0.2\<close>, \<open>0.3\<close> is such a triple, and in \<open>double\<close>
  arithmetic \<open>getUnique\<close> returns \<open>(0.10000000000000009, 0.20000000000000018,
  0.2999999999999998)\<close>: the sum \<open>a + M_PI\<close> is rounded, and subtracting \<open>M_PI\<close> does
  not give \<open>a\<close> back. The triple \<open>(M_PI, 0, 0)\<close> is such a triple too, since \<open>M_PI\<close> is
  below \<open>\<pi>\<close>, and \<open>getUnique\<close> returns \<open>(-M_PI, 0, 0)\<close>.
\<close>

theorem getUnique_double_changes_triple:
  "- pi \<le> yaw (EulerAnglesZyx3 (3602879701896397 / 36028797018963968)
        (3602879701896397 / 18014398509481984) (5404319552844595 / 18014398509481984))
   \<and> yaw (EulerAnglesZyx3 (3602879701896397 / 36028797018963968)
        (3602879701896397 / 18014398509481984) (5404319552844595 / 18014398509481984)) < pi
   \<and> - pi \<le> pitch (EulerAnglesZyx3 (3602879701896397 / 36028797018963968)
        (3602879701896397 / 18014398509481984) (5404319552844595 / 18014398509481984))
   \<and> pitch (EulerAnglesZyx3 (3602879701896397 / 36028797018963968)
        (3602879701896397 / 18014398509481984) (5404319552844595 / 18014398509481984)) < pi
   \<and> - pi \<le> roll (EulerAnglesZyx3 (3602879701896397 / 36028797018963968)
        (3602879701896397 / 18014398509481984) (5404319552844595 / 18014398509481984))
   \<and> roll (EulerAnglesZyx3 (3602879701896397 / 36028797018963968)
        (3602879701896397 / 18014398509481984) (5404319552844595 / 18014398509481984)) < pi
   \<and> - pi / 2 + 1 / 1000 < pitch (EulerAnglesZyx3 (3602879701896397 / 36028797018963968)
        (3602879701896397 / 18014398509481984) (5404319552844595 / 18014398509481984))
   \<and> pitch (EulerAnglesZyx3 (3602879701896397 / 36028797018963968)
        (3602879701896397 / 18014398509481984) (5404319552844595 / 18014398509481984))
       < pi / 2 - 1 / 1000
   \<and> getUnique_ieee 53 (EulerAnglesZyx3 (3602879701896397 / 36028797018963968)
        (3602879701896397 / 18014398509481984) (5404319552844595 / 18014398509481984))
       = EulerAnglesZyx3 (225179981368525 / 2251799813685248)
           (225179981368525 / 1125899906842624) (337769972052787 / 1125899906842624)
   \<and> getUnique_ieee 53 (EulerAnglesZyx3 (3602879701896397 / 36028797018963968)
        (3602879701896397 / 18014398509481984) (5404319552844595 / 18014398509481984))
       \<noteq> EulerAnglesZyx3 (3602879701896397 / 36028797018963968)
        (3602879701896397 / 18014398509481984) (5404319552844595 / 18014398509481984)
   \<and> - pi \<le> yaw (EulerAnglesZyx3 (884279719003555 / 281474976710656) 0 0)
   \<and> yaw (EulerAnglesZyx3 (884279719003555 / 281474976710656) 0 0) < pi
   \<and> - pi \<le> pitch (EulerAnglesZyx3 (884279719003555 / 281474976710656) 0 0)
   \<and> pitch (EulerAnglesZyx3 (884279719003555 / 281474976710656) 0 0) < pi
   \<and> - pi \<le> roll (EulerAnglesZyx3 (884279719003555 / 281474976710656) 0 0)
   \<and> roll (EulerAnglesZyx3 (884279719003555 / 281474976710656) 0 0) < pi
   \<and> - pi / 2 + 1 / 1000 < pitch (EulerAnglesZyx3 (884279719003555 / 281474976710656) 0 0)
   \<and> pitch (EulerAnglesZyx3 (884279719003555 / 281474976710656) 0 0) < pi / 2 - 1 / 1000
   \<and> getUnique_ieee 53 (EulerAnglesZyx3 (884279719003555 / 281474976710656) 0 0)
       = EulerAnglesZyx3 (- (884279719003555 / 281474976710656)) 0 0
   \<and> getUnique_ieee 53 (EulerAnglesZyx3 (884279719003555 / 281474976710656) 0 0)
       \<noteq> EulerAnglesZyx3 (884279719003555 / 281474976710656) 0 0"
proof -
  let ?t = "EulerAnglesZyx3 (3602879701896397 / 36028797018963968)
        (3602879701896397 / 18014398509481984) (5404319552844595 / 18014398509481984)"
  let ?v = "\<lparr>coeff0 = 225179981368525 / 2251799813685248,
             coeff1 = 225179981368525 / 1125899906842624,
             coeff2 = 337769972052787 / 1125899906842624\<rparr>"
  have h: "- pi \<le> yaw ?t" "yaw ?t < pi" "- pi \<le> pitch ?t" "pitch ?t < pi"
    "- pi \<le> roll ?t" "roll ?t < pi" "- pi / 2 + 1 / 1000 < pitch ?t"
    "pitch ?t < pi / 2 - 1 / 1000"
    using pi_ge_two by (simp_all add: EulerAnglesZyx3_def yaw_def pitch_def roll_def)
  have i: "getUnique_init_ieee 53 ?t = ?v"
    by (simp add: getUnique_init_ieee_def EulerAnglesZyx3_def yaw_def pitch_def roll_def
        wrap_double_tenth wrap_double_fifth wrap_double_three_tenths)
  have b: "getUnique_bands_ieee 53 ?v = ?v"
    by (rule bands_ieee_middle) (simp_all add: band_values)
  have g: "getUnique_ieee 53 ?t = EulerAnglesZyx3 (225179981368525 / 2251799813685248)
           (225179981368525 / 1125899906842624) (337769972052787 / 1125899906842624)"
    unfolding getUnique_ieee_def i b by (simp add: EulerAnglesZyx3_def)
  have n: "getUnique_ieee 53 ?t \<noteq> ?t"
    unfolding g by (simp add: EulerAnglesZyx3_def)
  let ?u = "EulerAnglesZyx3 (884279719003555 / 281474976710656) 0 0"
  let ?w = "\<lparr>coeff0 = - (884279719003555 / 281474976710656), coeff1 = 0, coeff2 = 0\<rparr>"
  have "yaw ?u < pi"
    using M_PI_less_pi by (simp add: EulerAnglesZyx3_def yaw_def M_PI_def)
  then have h': "- pi \<le> yaw ?u" "yaw ?u < pi" "- pi \<le> pitch ?u" "pitch ?u < pi"
    "- pi \<le> roll ?u" "roll ?u < pi" "- pi / 2 + 1 / 1000 < pitch ?u"
    "pitch ?u < pi / 2 - 1 / 1000"
    using pi_ge_two by (simp_all add: EulerAnglesZyx3_def yaw_def pitch_def roll_def)
  have i': "getUnique_init_ieee 53 ?u = ?w"
    by (simp add: getUnique_init_ieee_def EulerAnglesZyx3_def yaw_def pitch_def roll_def
        wrap_double_M_PI wrap_double_zero)
  have b': "getUnique_bands_ieee 53 ?w = ?w"
    by (rule bands_ieee_middle) (simp_all add: band_values)
  have g': "getUnique_ieee 53 ?u = EulerAnglesZyx3 (- (884279719003555 / 281474976710656)) 0 0"
    unfolding getUnique_ieee_def i' b' by (simp add: EulerAnglesZyx3_def)
  have n': "getUnique_ieee 53 ?u \<noteq> ?u"
    unfolding g' by (simp add: EulerAnglesZyx3_def)
  from h g n h' g' n' show ?thesis by blast
qed

text \<open>
  C10 as amended: for every triple \<open>t\<close> of doubles whose pitch lies strictly between the
  bounds \<open>-M_PI/2 + tol\<close> and \<open>M_PI/2 - tol\<close> that the code computes, and for each of
  whose components \<open>a\<close> the sum \<open>a + M_PI\<close> is a double (so that it is computed without
  rounding) and lies in \<open>[0, 2 M_PI)\<close> (so that \<open>a\<close> lies in \<open>[-M_PI, M_PI)\<close>),
  \<open>getUnique\<close> in \<open>double\<close> arithmetic returns \<open>t\<close> itself: the pre-wrap gives every
  component back and the middle band changes nothing.
\<close>

theorem getUnique_ieee_fixed_point:
  assumes "rnd 53 (yaw t) = yaw t" "rnd 53 (pitch t) = pitch t" "rnd 53 (roll t) = roll t"
    and "rnd 53 (yaw t + M_PI) = yaw t + M_PI"
    and "rnd 53 (pitch t + M_PI) = pitch t + M_PI"
    and "rnd 53 (roll t + M_PI) = roll t + M_PI"
    and "0 \<le> yaw t + M_PI" "yaw t + M_PI < 2 * M_PI"
    and "0 \<le> pitch t + M_PI" "pitch t + M_PI < 2 * M_PI"
    and "0 \<le> roll t + M_PI" "roll t + M_PI < 2 * M_PI"
    and "rnd 53 (rnd 53 (- M_PI / 2) + tol_double) < pitch t"
    and "pitch t < rnd 53 (rnd 53 (M_PI / 2) - tol_double)"
  shows "getUnique_ieee 53 t = t"
proof -
  have "wrap_ieee 53 (yaw t) = yaw t" "wrap_ieee 53 (pitch t) = pitch t"
    "wrap_ieee 53 (roll t) = roll t"
    using assms(1-12) by (simp_all add: wrap_ieee_unrounded)
  then have i: "getUnique_init_ieee 53 t = toImplementation t"
    by (simp add: getUnique_init_ieee_def yaw_def pitch_def roll_def)
  have "getUnique_bands_ieee 53 (toImplementation t) = toImplementation t"
    using assms(13,14) by (intro bands_ieee_middle) (simp_all add: pitch_def)
  with i show ?thesis
    by (simp add: getUnique_ieee_def)
qed

theorem getUnique_ieee_fixed_point_witness:
  "rnd 53 (yaw (EulerAnglesZyx3 (1 / 2) (1 / 4) (- (1 / 2))))
     = yaw (EulerAnglesZyx3 (1 / 2) (1 / 4) (- (1 / 2)))
   \<and> rnd 53 (yaw (EulerAnglesZyx3 (1 / 2) (1 / 4) (- (1 / 2))) + M_PI)
     = yaw (EulerAnglesZyx3 (1 / 2) (1 / 4) (- (1 / 2))) + M_PI
   \<and> 0 \<le> yaw (EulerAnglesZyx3 (1 / 2) (1 / 4) (- (1 / 2))) + M_PI
   \<and> yaw (EulerAnglesZyx3 (1 / 2) (1 / 4) (- (1 / 2))) + M_PI < 2 * M_PI
   \<and> rnd 53 (rnd 53 (- M_PI / 2) + tol_double)
       < pitch (EulerAnglesZyx3 (1 / 2) (1 / 4) (- (1 / 2)))
   \<and> pitch (EulerAnglesZyx3 (1 / 2) (1 / 4) (- (1 / 2)))
       < rnd 53 (rnd 53 (M_PI / 2) - tol_double)
   \<and> getUnique_ieee 53 (EulerAnglesZyx3 (1 / 2) (1 / 4) (- (1 / 2)))
       = EulerAnglesZyx3 (1 / 2) (1 / 4) (- (1 / 2))"
proof -
  let ?t = "EulerAnglesZyx3 (1 / 2) (1 / 4) (- (1 / 2))"
  have c: "yaw ?t = 1 / 2" "pitch ?t = 1 / 4" "roll ?t = - (1 / 2)"
    by (simp_all add: EulerAnglesZyx3_def yaw_def pitch_def roll_def)
  have d: "rnd 53 (yaw ?t) = yaw ?t" "rnd 53 (pitch ?t) = pitch ?t" "rnd 53 (roll ?t) = roll ?t"
    unfolding c by (rule double_half double_quarter double_minus_half)+
  have s: "rnd 53 (yaw ?t + M_PI) = yaw ?t + M_PI" "rnd 53 (pitch ?t + M_PI) = pitch ?t + M_PI"
    "rnd 53 (roll ?t + M_PI) = roll ?t + M_PI"
    unfolding c by (rule sum_half sum_quarter sum_minus_half)+
  have r: "0 \<le> yaw ?t + M_PI" "yaw ?t + M_PI < 2 * M_PI"
    "0 \<le> pitch ?t + M_PI" "pitch ?t + M_PI < 2 * M_PI"
    "0 \<le> roll ?t + M_PI" "roll ?t + M_PI < 2 * M_PI"
    unfolding c by (simp_all add: M_PI_def)
  have b: "rnd 53 (rnd 53 (- M_PI / 2) + tol_double) < pitch ?t"
    "pitch ?t < rnd 53 (rnd 53 (M_PI / 2) - tol_double)"
    unfolding c by (simp_all add: band_values)
  from getUnique_ieee_fixed_point [OF d s r b] d(1) s(1) r(1,2) b show ?thesis
    by blast
qed

end
